theory Spec2Isabelle
  imports Complex_Main "HOL-Library.Word"
begin

section \<open>Common Go notions\<close>

text \<open>
  Errors are values. \<open>Errorf\<close> is an error made by \<open>fmt.Errorf\<close> from a message,
  \<open>Wrap\<close> one made with the \<open>%w\<close> verb around another error, \<open>Canceled\<close> and
  \<open>DeadlineExceeded\<close> are the two errors a \<open>context.Context\<close> can report.
  A \<open>panic\<close> is a run-time panic of the Go runtime.
\<close>

datatype error = Errorf string | Wrap string error | Canceled | DeadlineExceeded

datatype panic = CloseOfClosedChannel | SendOnClosedChannel | SliceBoundsOutOfRange

text \<open>
  A \<open>context.Context\<close> is seen through \<open>ctx.Err()\<close>: \<open>None\<close> while the context is
  live (its \<open>Done\<close> channel is open), \<open>Some e\<close> once it is done.
\<close>

type_synonym Context = "error option"

text \<open>
  A channel: its buffered elements (oldest first), its capacity and whether it has
  been closed.
\<close>

record 'a chan =
  buf :: "'a list"
  cap :: nat
  closed :: bool

definition make_chan :: "nat \<Rightarrow> 'a chan" where
  "make_chan n = \<lparr>buf = [], cap = n, closed = False\<rparr>"

text \<open>\<open>close(c)\<close>: closing a closed channel panics.\<close>

definition chan_close :: "'a chan \<Rightarrow> panic + 'a chan" where
  "chan_close c = (if closed c then Inl CloseOfClosedChannel else Inr (c\<lparr>closed := True\<rparr>))"

text \<open>
  \<open>select { case c <- x: ... default: ... }\<close>: the send is taken when the buffer
  has room, the default branch otherwise; the flag tells which. A send on a closed
  channel panics.
\<close>

definition chan_try_send :: "'a chan \<Rightarrow> 'a \<Rightarrow> panic + (bool \<times> 'a chan)" where
  "chan_try_send c x =
     (if closed c then Inl SendOnClosedChannel
      else if length (buf c) < cap c then Inr (True, c\<lparr>buf := buf c @ [x]\<rparr>)
      else Inr (False, c))"

section \<open>Worker pool (package pool)\<close>

text \<open>
  Tasks are opaque to the pool (type \<open>'t\<close>). \<open>wg\<close> is the wait group's counter: the
  number of worker goroutines that have not returned yet.
\<close>

record 't WorkerPool =
  workerCount :: int
  taskQueue :: "'t chan"
  stopChan :: "unit chan"
  wg :: nat
  stopped :: bool

definition NewWorkerPool :: "int \<Rightarrow> int \<Rightarrow> 't WorkerPool" where
  "NewWorkerPool workerCount0 queueSize0 =
     (let workerCount1 = (if workerCount0 \<le> 0 then 1 else workerCount0);
          queueSize1 = (if queueSize0 \<le> 0 then 100 else queueSize0)
      in \<lparr>workerCount = workerCount1,
          taskQueue = make_chan (nat queueSize1),
          stopChan = make_chan 0,
          wg = 0,
          stopped = False\<rparr>)"

definition Start :: "'t WorkerPool \<Rightarrow> 't WorkerPool" where
  "Start wp = wp\<lparr>wg := wg wp + nat (workerCount wp)\<rparr>"

text \<open>
  One iteration of a worker that finds a task in the queue: the task leaves the
  queue and is returned for execution. \<open>None\<close> when there is nothing to take.
\<close>

definition worker_take :: "'t WorkerPool \<Rightarrow> ('t \<times> 't WorkerPool) option" where
  "worker_take wp =
     (case buf (taskQueue wp) of
        [] \<Rightarrow> None
      | t # ts \<Rightarrow> Some (t, wp\<lparr>taskQueue := (taskQueue wp)\<lparr>buf := ts\<rparr>\<rparr>))"

definition Submit :: "'t WorkerPool \<Rightarrow> 't \<Rightarrow> panic + (error option \<times> 't WorkerPool)" where
  "Submit wp task =
     (if stopped wp then Inr (Some (Errorf ''worker pool is stopped''), wp)
      else case chan_try_send (taskQueue wp) task of
             Inl p \<Rightarrow> Inl p
           | Inr (True, q) \<Rightarrow> Inr (None, wp\<lparr>taskQueue := q\<rparr>)
           | Inr (False, q) \<Rightarrow> Inr (Some (Errorf ''task queue is full''), wp))"

definition SubmitWithContext ::
  "'t WorkerPool \<Rightarrow> Context \<Rightarrow> 't \<Rightarrow> panic + (error option \<times> 't WorkerPool)" where
  "SubmitWithContext wp ctx task =
     (case ctx of
        Some e \<Rightarrow> Inr (Some e, wp)
      | None \<Rightarrow> Submit wp task)"

text \<open>
  \<open>Stop\<close>: the guard on \<open>stopped\<close>, then the stop channel is closed, the workers
  are waited for (every worker returns at the stop signal once its current task has
  ended, so the wait group reaches zero), then the task queue is closed.
\<close>

definition Stop :: "'t WorkerPool \<Rightarrow> panic + 't WorkerPool" where
  "Stop wp =
     (if stopped wp then Inr wp
      else let wp1 = wp\<lparr>stopped := True\<rparr> in
        case chan_close (stopChan wp1) of
          Inl p \<Rightarrow> Inl p
        | Inr sc \<Rightarrow>
            let wp2 = wp1\<lparr>stopChan := sc, wg := 0\<rparr> in
            case chan_close (taskQueue wp2) of
              Inl p \<Rightarrow> Inl p
            | Inr tq \<Rightarrow> Inr (wp2\<lparr>taskQueue := tq\<rparr>))"

definition GetWorkerCount :: "'t WorkerPool \<Rightarrow> int" where
  "GetWorkerCount wp = workerCount wp"

definition GetQueueSize :: "'t WorkerPool \<Rightarrow> int" where
  "GetQueueSize wp = int (length (buf (taskQueue wp)))"

definition IsStopped :: "'t WorkerPool \<Rightarrow> bool" where
  "IsStopped wp = stopped wp"

text \<open>
  The two channels are closed by \<open>Stop\<close> only, after it has set \<open>stopped\<close>: in every
  state the pool can be in, an open \<open>stopped\<close> flag means open channels.
\<close>

definition pool_inv :: "'t WorkerPool \<Rightarrow> bool" where
  "pool_inv wp = (stopped wp \<or> (\<not> closed (taskQueue wp) \<and> \<not> closed (stopChan wp)))"

section \<open>Alerts (package models)\<close>

text \<open>
  Instants are nanoseconds on the wall clock and durations are nanoseconds. An alert's
  \<open>Labels\<close> field holds the JSON encoding of a \<open>map[string]string\<close>; it is kept here
  as the map it encodes (\<open>GetLabelsMap\<close> decodes it back). \<open>Value\<close> is a \<open>float64\<close>,
  read as the real number it stands for.
\<close>

type_synonym time = int
type_synonym uuid = "128 word"
type_synonym AlertStatus = string

definition AlertStatusFiring :: AlertStatus where
  "AlertStatusFiring = ''firing''"

definition AlertStatusResolved :: AlertStatus where
  "AlertStatusResolved = ''resolved''"

record Alert =
  ID :: uuid
  Status :: AlertStatus
  Severity :: string
  Message :: string
  Source :: string
  Labels :: "string \<rightharpoonup> string"
  Value :: real
  TriggeredAt :: time
  ResolvedAt :: "time option"
  CreatedAt :: time
  UpdatedAt :: time

text \<open>
  \<open>NewAlert\<close> reads the clock and draws a fresh identifier; both are arguments here
  (\<open>now\<close> for \<open>time.Now()\<close>, \<open>uid\<close> for \<open>uuid.New()\<close>).
\<close>

definition NewAlert ::
  "uuid \<Rightarrow> time \<Rightarrow> string \<Rightarrow> string \<Rightarrow> string \<Rightarrow> real \<Rightarrow> (string \<rightharpoonup> string) \<Rightarrow> Alert" where
  "NewAlert uid now severity message source val labels =
     \<lparr>ID = uid, Status = AlertStatusFiring, Severity = severity, Message = message,
      Source = source, Labels = labels, Value = val, TriggeredAt = now,
      ResolvedAt = None, CreatedAt = now, UpdatedAt = now\<rparr>"

definition Resolve :: "time \<Rightarrow> Alert \<Rightarrow> Alert" where
  "Resolve now a = a\<lparr>Status := AlertStatusResolved, ResolvedAt := Some now, UpdatedAt := now\<rparr>"

definition IsFiring :: "Alert \<Rightarrow> bool" where
  "IsFiring a = (Status a = AlertStatusFiring)"

definition GetLabelsMap :: "Alert \<Rightarrow> (string \<rightharpoonup> string)" where
  "GetLabelsMap a = Labels a"

section \<open>Event bus (package processor)\<close>

record AlertEvent =
  ev_Alert :: Alert
  ev_Timestamp :: time

text \<open>
  Observers are opaque (type \<open>'o\<close>). \<open>bus_wg\<close> counts the dispatcher goroutine while it
  runs; \<open>bus_log\<close> collects the lines the bus writes to the logger.
\<close>

record 'o EventBus =
  observers :: "'o list"
  eventChan :: "AlertEvent chan"
  stopCh :: "unit chan"
  bus_wg :: nat
  bus_log :: "string list"

definition NewEventBus :: "'o EventBus" where
  "NewEventBus = \<lparr>observers = [], eventChan = make_chan 200, stopCh = make_chan 0,
                  bus_wg = 0, bus_log = []\<rparr>"

definition Subscribe :: "'o EventBus \<Rightarrow> 'o \<Rightarrow> 'o EventBus" where
  "Subscribe eb observer =
     eb\<lparr>observers := observers eb @ [observer],
        bus_log := bus_log eb @ [''Observer subscribed to event bus'']\<rparr>"

definition Publish :: "'o EventBus \<Rightarrow> AlertEvent \<Rightarrow> panic + 'o EventBus" where
  "Publish eb event =
     (case chan_try_send (eventChan eb) event of
        Inl p \<Rightarrow> Inl p
      | Inr (True, q) \<Rightarrow> Inr (eb\<lparr>eventChan := q\<rparr>)
      | Inr (False, q) \<Rightarrow>
          Inr (eb\<lparr>bus_log := bus_log eb @ [''Event bus channel full, dropping event'']\<rparr>))"

definition EventBus_Start :: "'o EventBus \<Rightarrow> 'o EventBus" where
  "EventBus_Start eb =
     eb\<lparr>bus_wg := bus_wg eb + 1, bus_log := bus_log eb @ [''Starting Alert Event Bus'']\<rparr>"

text \<open>
  \<open>EventBus.Stop\<close> closes the stop channel with no guard and waits for the
  dispatcher, which returns at the stop signal.
\<close>

definition EventBus_Stop :: "'o EventBus \<Rightarrow> panic + 'o EventBus" where
  "EventBus_Stop eb =
     (case chan_close (stopCh eb) of
        Inl p \<Rightarrow> Inl p
      | Inr sc \<Rightarrow> Inr (eb\<lparr>stopCh := sc, bus_wg := 0\<rparr>))"

section \<open>Alert state manager (package processor)\<close>

text \<open>
  The repository is an interface: its state has an arbitrary type \<open>'r\<close> and its
  \<open>Create\<close> method is passed as a function that returns the error, if any, and the
  repository afterwards. \<open>asm_log\<close> collects the lines the manager writes to the logger.
\<close>

record ('r, 'o) AlertStateManager =
  alertRepo :: 'r
  eventBus :: "'o EventBus"
  asm_log :: "string list"

definition ProcessAlert ::
  "('r \<Rightarrow> Alert \<Rightarrow> error option \<times> 'r) \<Rightarrow> time \<Rightarrow> Alert \<Rightarrow> ('r, 'o) AlertStateManager
     \<Rightarrow> panic + ((bool \<times> error option) \<times> ('r, 'o) AlertStateManager)" where
  "ProcessAlert create now alert asm =
     (case create (alertRepo asm) alert of
        (Some err, r') \<Rightarrow> Inr ((False, Some err), asm\<lparr>alertRepo := r'\<rparr>)
      | (None, r') \<Rightarrow>
          (case Publish (eventBus asm) \<lparr>ev_Alert = alert, ev_Timestamp = now\<rparr> of
             Inl p \<Rightarrow> Inl p
           | Inr eb' \<Rightarrow>
               Inr ((True, None),
                    asm\<lparr>alertRepo := r', eventBus := eb',
                        asm_log := asm_log asm @ [''Alert created and published'']\<rparr>)))"

section \<open>Alert repositories (package repository)\<close>

text \<open>Go's \<open>int\<close> is a 64-bit two's complement integer.\<close>

type_synonym go_int = "64 word"

record InMemoryAlertRepo =
  alerts :: "Alert list"

definition NewInMemoryAlertRepo :: InMemoryAlertRepo where
  "NewInMemoryAlertRepo = \<lparr>alerts = []\<rparr>"

definition InMemory_Create :: "InMemoryAlertRepo \<Rightarrow> Alert \<Rightarrow> error option \<times> InMemoryAlertRepo" where
  "InMemory_Create r alert = (None, r\<lparr>alerts := alerts r @ [alert]\<rparr>)"

text \<open>
  \<open>GetRecent\<close>: \<open>start := len(r.alerts) - limit\<close> in 64-bit arithmetic, raised to 0
  when negative; the slice expression \<open>r.alerts[start:]\<close> panics when \<open>start\<close> is
  beyond the length.
\<close>

definition InMemory_GetRecent ::
  "InMemoryAlertRepo \<Rightarrow> go_int \<Rightarrow> panic + ((Alert list \<times> error option) \<times> InMemoryAlertRepo)" where
  "InMemory_GetRecent r limit =
     (let start0 = (word_of_nat (length (alerts r)) - limit :: go_int);
          start = (if sint start0 < 0 then 0 else start0)
      in if int (length (alerts r)) < sint start then Inl SliceBoundsOutOfRange
         else Inr ((drop (nat (sint start)) (alerts r), None), r))"

definition InMemory_Count :: "InMemoryAlertRepo \<Rightarrow> int \<times> error option" where
  "InMemory_Count r = (int (length (alerts r)), None)"

definition InMemory_CountByStatus :: "InMemoryAlertRepo \<Rightarrow> AlertStatus \<Rightarrow> int \<times> error option" where
  "InMemory_CountByStatus r status =
     (int (length (filter (\<lambda>a. Status a = status) (alerts r))), None)"

definition InMemory_CountBySeverity :: "InMemoryAlertRepo \<Rightarrow> string \<Rightarrow> int \<times> error option" where
  "InMemory_CountBySeverity r severity =
     (int (length (filter (\<lambda>a. Severity a = severity \<and> Status a = AlertStatusFiring) (alerts r))),
      None)"

text \<open>
  The PostgreSQL repository hands its query to the database:
  \<open>Order("triggered_at DESC").Limit(limit).Find(&alerts)\<close>. The database is seen as
  its table of rows and the error, if any, that it answers with. The query is read
  as SQL reads it: the rows sorted by \<open>triggered_at\<close>, latest first, cut to the first
  \<open>limit\<close> rows; a negative limit puts no \<open>LIMIT\<close> clause in the query.
\<close>

record PostgresAlertRepo =
  db_rows :: "Alert list"
  db_error :: "error option"

definition order_triggered_at_desc :: "Alert list \<Rightarrow> Alert list" where
  "order_triggered_at_desc rows = rev (sort_key TriggeredAt rows)"

definition sql_limit :: "go_int \<Rightarrow> 'a list \<Rightarrow> 'a list" where
  "sql_limit limit rows = (if sint limit < 0 then rows else take (nat (sint limit)) rows)"

definition Postgres_GetRecent :: "PostgresAlertRepo \<Rightarrow> go_int \<Rightarrow> Alert list \<times> error option" where
  "Postgres_GetRecent r limit =
     (case db_error r of
        Some e \<Rightarrow> ([], Some e)
      | None \<Rightarrow> (sql_limit limit (order_triggered_at_desc (db_rows r)), None))"

definition Postgres_Create :: "PostgresAlertRepo \<Rightarrow> Alert \<Rightarrow> error option \<times> PostgresAlertRepo" where
  "Postgres_Create r alert =
     (case db_error r of
        Some e \<Rightarrow> (Some e, r)
      | None \<Rightarrow> (None, r\<lparr>db_rows := db_rows r @ [alert]\<rparr>))"

text \<open>
  The service in front of a repository (package service) replaces a limit outside
  1..1000 by 100 before it calls the repository's \<open>GetRecent\<close>, here a parameter.
\<close>

definition GetRecentAlerts :: "('r \<Rightarrow> go_int \<Rightarrow> 'a) \<Rightarrow> 'r \<Rightarrow> go_int \<Rightarrow> 'a" where
  "GetRecentAlerts getRecent r limit =
     getRecent r (if sint limit \<le> 0 \<or> 1000 < sint limit then 100 else limit)"

section \<open>Cluster objects, as far as the evaluator reads them\<close>

text \<open>
  The fields of \<open>corev1.Pod\<close>, \<open>corev1.ContainerStatus\<close> and \<open>corev1.Node\<close> that the
  collector reads. Phases, condition types and condition statuses are strings in the
  Kubernetes API. \<open>RestartCount\<close> is an \<open>int32\<close>: a 32-bit word read through \<open>sint\<close>.
\<close>

type_synonym int32 = "32 word"
type_synonym int64 = "64 word"

record ContainerStateWaiting =
  w_Reason :: string
  w_Message :: string

record ContainerStateTerminated =
  t_Reason :: string

record ContainerStatus =
  cs_Name :: string
  cs_RestartCount :: int32
  cs_Waiting :: "ContainerStateWaiting option"
  cs_LastTerminated :: "ContainerStateTerminated option"

record Pod =
  pod_Namespace :: string
  pod_Name :: string
  pod_CreationTimestamp :: time
  pod_Phase :: string
  pod_Reason :: string
  pod_Message :: string
  pod_ContainerStatuses :: "ContainerStatus list"

record NodeCondition =
  nc_Type :: string
  nc_Status :: string
  nc_Reason :: string

record Node =
  node_Name :: string
  node_Conditions :: "NodeCondition list"

definition PodPending :: string where "PodPending = ''Pending''"
definition PodFailed :: string where "PodFailed = ''Failed''"
definition PodUnknown :: string where "PodUnknown = ''Unknown''"
definition NodeReady :: string where "NodeReady = ''Ready''"
definition NodeMemoryPressure :: string where "NodeMemoryPressure = ''MemoryPressure''"
definition NodeDiskPressure :: string where "NodeDiskPressure = ''DiskPressure''"
definition NodePIDPressure :: string where "NodePIDPressure = ''PIDPressure''"
definition ConditionTrue :: string where "ConditionTrue = ''True''"

section \<open>Floating-point numbers\<close>

text \<open>
  A finite \<open>float64\<close> is the real number it denotes, and \<open>float64_round\<close> is the
  rounding that ends every \<open>float64\<close> conversion, division and multiplication: to
  the nearest number with 53 significant bits, a tie going to the one whose last bit
  is even. \<open>float64_exponent x\<close> is the \<open>e\<close> with \<open>2^e \<le> \<bar>x\<bar> < 2^(e+1)\<close>, found by
  halving or doubling, and not below \<open>- 1022\<close>, where the subnormal numbers begin. The
  numbers rounded below come from 64-bit integers, their quotients by a positive
  integer and the products of these by 100: all lie below \<open>2^1024\<close>, so the overflow
  to an infinity is not reached, and it is not represented.
\<close>

fun exponent_up :: "nat \<Rightarrow> real \<Rightarrow> int" where
  "exponent_up k x = (if k = 0 \<or> x < 2 then 0 else exponent_up (k - 1) (x / 2) + 1)"

declare exponent_up.simps [simp del]

fun exponent_down :: "nat \<Rightarrow> real \<Rightarrow> int" where
  "exponent_down k x = (if k = 0 \<or> 1 \<le> x then 0 else exponent_down (k - 1) (x * 2) - 1)"

declare exponent_down.simps [simp del]

definition float64_exponent :: "real \<Rightarrow> int" where
  "float64_exponent x =
     (if 1 \<le> \<bar>x\<bar> then exponent_up 1023 \<bar>x\<bar> else exponent_down 1022 \<bar>x\<bar>)"

definition round_half_even :: "real \<Rightarrow> int" where
  "round_half_even x =
     (let n = \<lfloor>x\<rfloor>; d = x - real_of_int n
      in if d < 1 / 2 then n else if 1 / 2 < d then n + 1 else if even n then n else n + 1)"

definition float64_round :: "real \<Rightarrow> real" where
  "float64_round x =
     (let e = float64_exponent x;
          ulp = (if 52 \<le> e then 2 ^ nat (e - 52) else 1 / 2 ^ nat (52 - e))
      in real_of_int (round_half_even (x / ulp)) * ulp)"

text \<open>
  The conversions \<open>float64(n)\<close> of an \<open>int32\<close>, which is exact (31 significant bits
  at most), and of an \<open>int64\<close> or \<open>int\<close>, which rounds from \<open>2^53\<close> on.
\<close>

definition float_of_int32 :: "int32 \<Rightarrow> real" where
  "float_of_int32 n = real_of_int (sint n)"

definition float_of_int64 :: "int64 \<Rightarrow> real" where
  "float_of_int64 n = float64_round (real_of_int (sint n))"

text \<open>
  The conversion \<open>int32(value)\<close> of a \<open>float64\<close>: the fraction is dropped (towards
  zero). For a value outside the range of \<open>int32\<close> the language leaves the result to
  the implementation; the amd64 compiler's conversion instruction yields the least
  \<open>int32\<close>, and that is what is modelled.
\<close>

definition int32_of_float :: "real \<Rightarrow> int32" where
  "int32_of_float v =
     (let t = (if 0 \<le> v then \<lfloor>v\<rfloor> else \<lceil>v\<rceil>)
      in if - (2 ^ 31) \<le> t \<and> t < 2 ^ 31 then word_of_int t else - (2 ^ 31))"

section \<open>Formatting\<close>

text \<open>
  \<open>fmt_d\<close> is the verb \<open>%d\<close>: the decimal digits of an integer. The float verbs
  \<open>%.1f\<close> and \<open>%.2f\<close>, the RFC 3339 layout of an instant and the \<open>%v\<close> rendering of
  the label bytes belong to Go's library; they are parameters, gathered in \<open>Fmt\<close>.
\<close>

fun digits :: "nat \<Rightarrow> string" where
  "digits n = (if n < 10 then [''0123456789'' ! n]
               else digits (n div 10) @ [''0123456789'' ! (n mod 10)])"

declare digits.simps [simp del]

definition fmt_d :: "int \<Rightarrow> string" where
  "fmt_d i = (if i < 0 then ''-'' @ digits (nat (- i)) else digits (nat i))"

record Fmt =
  fmt_f1 :: "real \<Rightarrow> string"
  fmt_f2 :: "real \<Rightarrow> string"
  fmt_rfc3339 :: "time \<Rightarrow> string"
  fmt_v_labels :: "(string \<rightharpoonup> string) \<Rightarrow> string"

section \<open>Alert builders (package collector)\<close>

definition SeverityCritical :: string where "SeverityCritical = ''critical''"
definition SeverityHigh :: string where "SeverityHigh = ''high''"
definition SeverityMedium :: string where "SeverityMedium = ''medium''"
definition SeverityLow :: string where "SeverityLow = ''low''"

type_synonym AlertType = string

definition AlertTypePodFailed :: AlertType where "AlertTypePodFailed = ''pod_failed''"
definition AlertTypePodOOMKilled :: AlertType where "AlertTypePodOOMKilled = ''pod_oom_killed''"
definition AlertTypePodCrashLoop :: AlertType where "AlertTypePodCrashLoop = ''pod_crash_loop''"
definition AlertTypePodRestartThreshold :: AlertType where
  "AlertTypePodRestartThreshold = ''pod_restart_threshold''"
definition AlertTypePodImagePullError :: AlertType where "AlertTypePodImagePullError = ''pod_image_pull''"
definition AlertTypePodPending :: AlertType where "AlertTypePodPending = ''pod_pending''"
definition AlertTypePodUnknown :: AlertType where "AlertTypePodUnknown = ''pod_unknown''"
definition AlertTypeNodeNotReady :: AlertType where "AlertTypeNodeNotReady = ''node_not_ready''"
definition AlertTypeNodeMemoryPressure :: AlertType where
  "AlertTypeNodeMemoryPressure = ''node_memory_pressure''"
definition AlertTypeNodeDiskPressure :: AlertType where
  "AlertTypeNodeDiskPressure = ''node_disk_pressure''"
definition AlertTypeNodePIDPressure :: AlertType where
  "AlertTypeNodePIDPressure = ''node_pid_pressure''"
definition AlertTypePodCPUHigh :: AlertType where "AlertTypePodCPUHigh = ''pod_cpu_high''"
definition AlertTypePodMemoryHigh :: AlertType where "AlertTypePodMemoryHigh = ''pod_memory_high''"
definition AlertTypeNodeCPUHigh :: AlertType where "AlertTypeNodeCPUHigh = ''node_cpu_high''"
definition AlertTypeNodeMemoryHigh :: AlertType where "AlertTypeNodeMemoryHigh = ''node_memory_high''"

text \<open>
  The helpers that pick the container an alert is about: each is a loop over the
  container statuses that returns at the first match.
\<close>

fun getOOMKilledContainer_loop :: "ContainerStatus list \<Rightarrow> string" where
  "getOOMKilledContainer_loop [] = ''unknown''"
| "getOOMKilledContainer_loop (cs # css) =
     (if cs_LastTerminated cs \<noteq> None \<and> t_Reason (the (cs_LastTerminated cs)) = ''OOMKilled''
      then cs_Name cs
      else getOOMKilledContainer_loop css)"

definition getOOMKilledContainer :: "Pod \<Rightarrow> string" where
  "getOOMKilledContainer pod = getOOMKilledContainer_loop (pod_ContainerStatuses pod)"

fun getCrashLoopContainer_loop :: "ContainerStatus list \<Rightarrow> string \<times> string" where
  "getCrashLoopContainer_loop [] = (''unknown'', ''unknown'')"
| "getCrashLoopContainer_loop (cs # css) =
     (if cs_Waiting cs \<noteq> None \<and> w_Reason (the (cs_Waiting cs)) = ''CrashLoopBackOff''
      then (cs_Name cs, w_Message (the (cs_Waiting cs)))
      else getCrashLoopContainer_loop css)"

definition getCrashLoopContainer :: "Pod \<Rightarrow> string \<times> string" where
  "getCrashLoopContainer pod = getCrashLoopContainer_loop (pod_ContainerStatuses pod)"

text \<open>
  \<open>getHighestRestartContainer\<close>: the loop carries \<open>maxRestarts\<close> (from 0) and
  \<open>containerName\<close> (from "unknown") and replaces both at a container whose restart
  count is strictly greater than \<open>maxRestarts\<close>.
\<close>

fun getHighestRestartContainer_loop ::
  "ContainerStatus list \<Rightarrow> int32 \<times> string \<Rightarrow> int32 \<times> string" where
  "getHighestRestartContainer_loop [] st = st"
| "getHighestRestartContainer_loop (cs # css) (maxRestarts, containerName) =
     getHighestRestartContainer_loop css
       (if sint maxRestarts < sint (cs_RestartCount cs)
        then (cs_RestartCount cs, cs_Name cs)
        else (maxRestarts, containerName))"

definition getHighestRestartContainer :: "Pod \<Rightarrow> string" where
  "getHighestRestartContainer pod =
     snd (getHighestRestartContainer_loop (pod_ContainerStatuses pod) (0, ''unknown''))"

fun getImagePullError_loop :: "ContainerStatus list \<Rightarrow> string \<times> string" where
  "getImagePullError_loop [] = (''unknown'', ''unknown'')"
| "getImagePullError_loop (cs # css) =
     (if cs_Waiting cs \<noteq> None \<and>
         (w_Reason (the (cs_Waiting cs)) = ''ImagePullBackOff''
          \<or> w_Reason (the (cs_Waiting cs)) = ''ErrImagePull'')
      then (cs_Name cs, w_Message (the (cs_Waiting cs)))
      else getImagePullError_loop css)"

definition getImagePullError :: "Pod \<Rightarrow> string \<times> string" where
  "getImagePullError pod = getImagePullError_loop (pod_ContainerStatuses pod)"

fun getNodeConditionReason_loop :: "NodeCondition list \<Rightarrow> string \<Rightarrow> string" where
  "getNodeConditionReason_loop [] conditionType = ''Unknown''"
| "getNodeConditionReason_loop (c # cs) conditionType =
     (if nc_Type c = conditionType
      then (if nc_Reason c \<noteq> '''' then nc_Reason c else nc_Status c)
      else getNodeConditionReason_loop cs conditionType)"

definition getNodeConditionReason :: "Node \<Rightarrow> string \<Rightarrow> string" where
  "getNodeConditionReason node conditionType =
     getNodeConditionReason_loop (node_Conditions node) conditionType"

text \<open>
  \<open>BuildPodAlert\<close>: the \<open>switch\<close> on the alert type sets severity and message and adds
  labels; its outcome is the triple (severity, message, labels). \<open>quoted\<close> puts a
  name between single quotes, as the format strings do.
\<close>

definition quoted :: "string \<Rightarrow> string" where
  "quoted n = [CHR 0x27] @ n @ [CHR 0x27]"

definition BuildPodAlert :: "uuid \<Rightarrow> time \<Rightarrow> Pod \<Rightarrow> AlertType \<Rightarrow> real \<Rightarrow> Alert" where
  "BuildPodAlert uid now pod alertType val =
     (let labels = [''namespace'' \<mapsto> pod_Namespace pod, ''pod'' \<mapsto> pod_Name pod,
                    ''alert_type'' \<mapsto> alertType];
          pn = pod_Namespace pod @ ''/'' @ pod_Name pod;
          (severity, message, labels) =
            (if alertType = AlertTypePodFailed then
               (SeverityCritical,
                ''Pod '' @ pn @ '' has FAILED - Phase: '' @ pod_Phase pod @ '', Reason: '' @ pod_Reason pod
                  @ (if pod_Message pod \<noteq> '''' then '', Message: '' @ pod_Message pod else ''''),
                labels)
             else if alertType = AlertTypePodOOMKilled then
               (let containerName = getOOMKilledContainer pod in
                (SeverityCritical,
                 ''Pod '' @ pn @ '' container '' @ quoted containerName
                   @ '' was OOM KILLED - Out of memory'',
                 labels(''container'' \<mapsto> containerName)))
             else if alertType = AlertTypePodCrashLoop then
               (let (containerName, reason) = getCrashLoopContainer pod in
                (SeverityHigh,
                 ''Pod '' @ pn @ '' container '' @ quoted containerName
                   @ '' is in CRASH LOOP BACKOFF - Reason: '' @ reason,
                 labels(''container'' \<mapsto> containerName, ''reason'' \<mapsto> reason)))
             else if alertType = AlertTypePodRestartThreshold then
               (let restartCount = int32_of_float val;
                    containerName = getHighestRestartContainer pod in
                (SeverityHigh,
                 ''Pod '' @ pn @ '' has EXCESSIVE RESTARTS - Total restarts: ''
                   @ fmt_d (sint restartCount) @ '', Container: '' @ containerName,
                 labels(''container'' \<mapsto> containerName)))
             else if alertType = AlertTypePodImagePullError then
               (let (containerName, imageError) = getImagePullError pod in
                (SeverityHigh,
                 ''Pod '' @ pn @ '' container '' @ quoted containerName
                   @ '' cannot pull image - Error: '' @ imageError,
                 labels(''container'' \<mapsto> containerName)))
             else if alertType = AlertTypePodPending then
               (SeverityMedium,
                ''Pod '' @ pn @ '' is PENDING for extended period - Reason: '' @ pod_Reason pod
                  @ (if pod_Message pod \<noteq> '''' then '', Details: '' @ pod_Message pod else ''''),
                labels)
             else if alertType = AlertTypePodUnknown then
               (SeverityCritical,
                ''Pod '' @ pn @ '' is in UNKNOWN state - Last known phase: '' @ pod_Phase pod,
                labels)
             else
               (SeverityMedium, ''Pod '' @ pn @ '' issue detected - Type: '' @ alertType, labels))
      in NewAlert uid now severity message ''k8s_pod'' val labels)"

definition BuildNodeAlert :: "uuid \<Rightarrow> time \<Rightarrow> Node \<Rightarrow> AlertType \<Rightarrow> real \<Rightarrow> Alert" where
  "BuildNodeAlert uid now node alertType val =
     (let labels = [''node'' \<mapsto> node_Name node, ''alert_type'' \<mapsto> alertType];
          (severity, message) =
            (if alertType = AlertTypeNodeNotReady then
               (SeverityCritical,
                ''Node '' @ node_Name node @ '' is NOT READY - Status: ''
                  @ getNodeConditionReason node NodeReady)
             else if alertType = AlertTypeNodeMemoryPressure then
               (SeverityHigh,
                ''Node '' @ node_Name node @ '' has MEMORY PRESSURE - Available memory is low'')
             else if alertType = AlertTypeNodeDiskPressure then
               (SeverityHigh,
                ''Node '' @ node_Name node @ '' has DISK PRESSURE - Disk space is running low'')
             else if alertType = AlertTypeNodePIDPressure then
               (SeverityMedium,
                ''Node '' @ node_Name node @ '' has PID PRESSURE - Too many processes running'')
             else
               (SeverityMedium,
                ''Node '' @ node_Name node @ '' issue detected - Type: '' @ alertType))
      in NewAlert uid now severity message ''k8s_node'' val labels)"

definition BuildPodMetricAlert ::
  "Fmt \<Rightarrow> uuid \<Rightarrow> time \<Rightarrow> string \<Rightarrow> string \<Rightarrow> AlertType \<Rightarrow> real \<Rightarrow> real \<Rightarrow> Alert" where
  "BuildPodMetricAlert fmt uid now namespace podName alertType val threshold =
     (let labels = [''namespace'' \<mapsto> namespace, ''pod'' \<mapsto> podName,
                    ''alert_type'' \<mapsto> alertType, ''metric'' \<mapsto> ''''];
          pn = namespace @ ''/'' @ podName;
          (severity, message, labels) =
            (if alertType = AlertTypePodCPUHigh then
               (SeverityHigh,
                ''Pod '' @ pn @ '' CPU usage is HIGH: '' @ fmt_f1 fmt val @ ''% (threshold: ''
                  @ fmt_f1 fmt threshold @ ''%)'',
                labels(''metric'' \<mapsto> ''cpu''))
             else if alertType = AlertTypePodMemoryHigh then
               (SeverityHigh,
                ''Pod '' @ pn @ '' Memory usage is HIGH: '' @ fmt_f1 fmt val @ ''% (threshold: ''
                  @ fmt_f1 fmt threshold @ ''%)'',
                labels(''metric'' \<mapsto> ''memory''))
             else
               (SeverityMedium, ''Pod '' @ pn @ '' metric alert'', labels))
      in NewAlert uid now severity message ''k8s_pod_metrics'' val labels)"

definition BuildNodeMetricAlert ::
  "Fmt \<Rightarrow> uuid \<Rightarrow> time \<Rightarrow> string \<Rightarrow> AlertType \<Rightarrow> real \<Rightarrow> real \<Rightarrow> Alert" where
  "BuildNodeMetricAlert fmt uid now nodeName alertType val threshold =
     (let labels = [''node'' \<mapsto> nodeName, ''alert_type'' \<mapsto> alertType, ''metric'' \<mapsto> ''''];
          (severity, message, labels) =
            (if alertType = AlertTypeNodeCPUHigh then
               (SeverityCritical,
                ''Node '' @ nodeName @ '' CPU usage is CRITICAL: '' @ fmt_f1 fmt val
                  @ ''% (threshold: '' @ fmt_f1 fmt threshold @ ''%)'',
                labels(''metric'' \<mapsto> ''cpu''))
             else if alertType = AlertTypeNodeMemoryHigh then
               (SeverityCritical,
                ''Node '' @ nodeName @ '' Memory usage is CRITICAL: '' @ fmt_f1 fmt val
                  @ ''% (threshold: '' @ fmt_f1 fmt threshold @ ''%)'',
                labels(''metric'' \<mapsto> ''memory''))
             else
               (SeverityMedium, ''Node '' @ nodeName @ '' metric alert'', labels))
      in NewAlert uid now severity message ''k8s_node_metrics'' val labels)"

section \<open>Configuration (package config)\<close>

text \<open>
  The structs \<open>EmailConfig\<close> and \<open>AlertRulesConfig\<close> of package \<open>config\<close>, field by
  field. The thresholds are of type \<open>int\<close>; the four \<open>Percent\<close> fields are not read
  from the configuration file: \<open>Load\<close> computes them from the thresholds once the file
  and the environment have been read. \<open>Load_AlertRules\<close> is that step of \<open>Load\<close>.
  The collector reads \<open>PodRestartThreshold\<close> and the four \<open>Percent\<close> fields; the
  email dispatcher reads every field of \<open>EmailConfig\<close> but \<open>Enabled\<close>.
\<close>

record EmailConfig =
  Enabled :: bool
  SMTPHost :: string
  SMTPPort :: go_int
  Username :: string
  Password :: string
  From :: string
  To :: "string list"

record AlertRulesConfig =
  PodRestartThreshold :: go_int
  PodCPUThreshold :: go_int
  PodMemoryThreshold :: go_int
  NodeCPUThreshold :: go_int
  NodeMemoryThreshold :: go_int
  MetricsCheckInterval :: go_int
  PodCPUPercent :: real
  PodMemoryPercent :: real
  NodeCPUPercent :: real
  NodeMemoryPercent :: real

definition Load_AlertRules :: "AlertRulesConfig \<Rightarrow> AlertRulesConfig" where
  "Load_AlertRules rules =
     rules\<lparr>PodCPUPercent := float_of_int64 (PodCPUThreshold rules),
           PodMemoryPercent := float_of_int64 (PodMemoryThreshold rules),
           NodeCPUPercent := float_of_int64 (NodeCPUThreshold rules),
           NodeMemoryPercent := float_of_int64 (NodeMemoryThreshold rules)\<rparr>"

section \<open>Pod watcher (package collector)\<close>

text \<open>Durations are nanoseconds in 64 bits; \<open>time.Since\<close> saturates at the ends.\<close>

definition Second :: int where "Second = 1000000000"
definition Minute :: int where "Minute = 60 * Second"

definition time_Since :: "time \<Rightarrow> time \<Rightarrow> int" where
  "time_Since now t = max (- (2 ^ 63)) (min (2 ^ 63 - 1) (now - t))"

record PodWatcher =
  restartThreshold :: int32
  pendingTimeout :: int

definition NewPodWatcher :: "AlertRulesConfig \<Rightarrow> PodWatcher" where
  "NewPodWatcher cfg =
     \<lparr>restartThreshold = ucast (PodRestartThreshold cfg), pendingTimeout = 5 * Minute\<rparr>"

text \<open>
  \<open>evaluatePodConditions\<close> at the instant \<open>now\<close>; the alert appended to a list of
  \<open>k\<close> alerts draws the identifier \<open>ids k\<close>. The body of the loop over the container
  statuses works on the pair (\<open>totalRestarts\<close>, \<open>alerts\<close>).
\<close>

definition evaluatePodConditions_body ::
  "(nat \<Rightarrow> uuid) \<Rightarrow> time \<Rightarrow> Pod \<Rightarrow> ContainerStatus \<Rightarrow> int32 \<times> Alert list \<Rightarrow> int32 \<times> Alert list" where
  "evaluatePodConditions_body ids now pod cs st =
     (let totalRestarts = fst st + cs_RestartCount cs;
          alerts = snd st;
          alerts = (if cs_LastTerminated cs \<noteq> None
                       \<and> t_Reason (the (cs_LastTerminated cs)) = ''OOMKilled''
                    then alerts @ [BuildPodAlert (ids (length alerts)) now pod AlertTypePodOOMKilled
                                     (float_of_int32 (cs_RestartCount cs))]
                    else alerts);
          alerts = (if cs_Waiting cs \<noteq> None \<and> w_Reason (the (cs_Waiting cs)) = ''CrashLoopBackOff''
                    then alerts @ [BuildPodAlert (ids (length alerts)) now pod AlertTypePodCrashLoop
                                     (float_of_int32 (cs_RestartCount cs))]
                    else alerts);
          alerts = (if cs_Waiting cs \<noteq> None
                       \<and> (w_Reason (the (cs_Waiting cs)) = ''ImagePullBackOff''
                          \<or> w_Reason (the (cs_Waiting cs)) = ''ErrImagePull'')
                    then alerts @ [BuildPodAlert (ids (length alerts)) now pod
                                     AlertTypePodImagePullError 1]
                    else alerts)
      in (totalRestarts, alerts))"

fun evaluatePodConditions_loop ::
  "(nat \<Rightarrow> uuid) \<Rightarrow> time \<Rightarrow> Pod \<Rightarrow> ContainerStatus list \<Rightarrow> int32 \<times> Alert list \<Rightarrow> int32 \<times> Alert list" where
  "evaluatePodConditions_loop ids now pod [] st = st"
| "evaluatePodConditions_loop ids now pod (cs # css) st =
     evaluatePodConditions_loop ids now pod css (evaluatePodConditions_body ids now pod cs st)"

definition evaluatePodConditions :: "PodWatcher \<Rightarrow> (nat \<Rightarrow> uuid) \<Rightarrow> time \<Rightarrow> Pod \<Rightarrow> Alert list" where
  "evaluatePodConditions pw ids now pod =
     (let alerts = [];
          alerts = (if pod_Phase pod = PodFailed
                    then alerts @ [BuildPodAlert (ids (length alerts)) now pod AlertTypePodFailed 1]
                    else alerts);
          alerts = (if pod_Phase pod = PodUnknown
                    then alerts @ [BuildPodAlert (ids (length alerts)) now pod AlertTypePodUnknown 1]
                    else alerts);
          st = evaluatePodConditions_loop ids now pod (pod_ContainerStatuses pod) (0, alerts);
          totalRestarts = fst st;
          alerts = snd st;
          alerts = (if sint (restartThreshold pw) < sint totalRestarts
                    then alerts @ [BuildPodAlert (ids (length alerts)) now pod
                                     AlertTypePodRestartThreshold (float_of_int32 totalRestarts)]
                    else alerts);
          alerts = (if pod_Phase pod = PodPending
                       \<and> pendingTimeout pw < time_Since now (pod_CreationTimestamp pod)
                    then alerts @ [BuildPodAlert (ids (length alerts)) now pod AlertTypePodPending 1]
                    else alerts)
      in alerts)"

section \<open>Node watcher (package collector)\<close>

text \<open>
  \<open>evaluateNodeConditions\<close>: the body of the loop over the node's conditions is
  the \<open>switch\<close> on the condition type; \<open>found\<close> is the slice \<open>alerts\<close> so far.
\<close>

definition evaluateNodeConditions_body ::
  "(nat \<Rightarrow> uuid) \<Rightarrow> time \<Rightarrow> Node \<Rightarrow> NodeCondition \<Rightarrow> Alert list \<Rightarrow> Alert list" where
  "evaluateNodeConditions_body ids now node condition found =
     (if nc_Type condition = NodeReady then
        (if nc_Status condition \<noteq> ConditionTrue
         then found @ [BuildNodeAlert (ids (length found)) now node AlertTypeNodeNotReady 1]
         else found)
      else if nc_Type condition = NodeMemoryPressure then
        (if nc_Status condition = ConditionTrue
         then found @ [BuildNodeAlert (ids (length found)) now node AlertTypeNodeMemoryPressure 1]
         else found)
      else if nc_Type condition = NodeDiskPressure then
        (if nc_Status condition = ConditionTrue
         then found @ [BuildNodeAlert (ids (length found)) now node AlertTypeNodeDiskPressure 1]
         else found)
      else if nc_Type condition = NodePIDPressure then
        (if nc_Status condition = ConditionTrue
         then found @ [BuildNodeAlert (ids (length found)) now node AlertTypeNodePIDPressure 1]
         else found)
      else found)"

fun evaluateNodeConditions_loop ::
  "(nat \<Rightarrow> uuid) \<Rightarrow> time \<Rightarrow> Node \<Rightarrow> NodeCondition list \<Rightarrow> Alert list \<Rightarrow> Alert list" where
  "evaluateNodeConditions_loop ids now node [] found = found"
| "evaluateNodeConditions_loop ids now node (c # cs) found =
     evaluateNodeConditions_loop ids now node cs (evaluateNodeConditions_body ids now node c found)"

definition evaluateNodeConditions :: "(nat \<Rightarrow> uuid) \<Rightarrow> time \<Rightarrow> Node \<Rightarrow> Alert list" where
  "evaluateNodeConditions ids now node =
     evaluateNodeConditions_loop ids now node (node_Conditions node) []"

section \<open>Metrics client and metrics watcher (package collector)\<close>

text \<open>
  The snapshots of the metrics client. A percentage is a finite \<open>float64\<close>, as
  \<open>GetPodMetrics\<close> computes it. \<open>GetNodeMetrics\<close>, which divides by the capacity the
  API reports for the node, is not modelled: the node snapshots are inputs.
\<close>

record PodMetrics =
  pm_Namespace :: string
  pm_PodName :: string
  pm_CPUUsageMillicores :: int64
  pm_CPUUsagePercent :: real
  pm_MemoryUsageBytes :: int64
  pm_MemoryUsagePercent :: real
  pm_CPURequestMillis :: int64
  pm_MemoryRequestBytes :: int64

record NodeMetrics =
  nm_NodeName :: string
  nm_CPUUsageMillicores :: int64
  nm_CPUUsagePercent :: real
  nm_MemoryUsageBytes :: int64
  nm_MemoryUsagePercent :: real
  nm_CPUCapacityMillis :: int64
  nm_MemoryCapacityBytes :: int64

text \<open>
  The part of \<open>GetPodMetrics\<close> after its two API calls: the containers' usages and
  requests (CPU in millicores, memory in bytes) are summed in 64 bits, and a
  percentage is computed for a positive request only (it stays 0 otherwise). The
  percentage is a \<open>float64\<close> quotient multiplied by 100: the two conversions, the
  division and the multiplication round each.
\<close>

definition GetPodMetrics ::
  "string \<Rightarrow> string \<Rightarrow> (int64 \<times> int64) list \<Rightarrow> (int64 \<times> int64) list \<Rightarrow> PodMetrics" where
  "GetPodMetrics namespace podName usages requests =
     (let totalCPUUsage = foldl (\<lambda>acc c. acc + fst c) 0 usages;
          totalMemoryUsage = foldl (\<lambda>acc c. acc + snd c) 0 usages;
          totalCPURequest = foldl (\<lambda>acc c. acc + fst c) 0 requests;
          totalMemoryRequest = foldl (\<lambda>acc c. acc + snd c) 0 requests;
          cpuPercent = (if 0 < sint totalCPURequest
                        then float64_round
                               (float64_round (float_of_int64 totalCPUUsage
                                                 / float_of_int64 totalCPURequest) * 100)
                        else 0);
          memPercent = (if 0 < sint totalMemoryRequest
                        then float64_round
                               (float64_round (float_of_int64 totalMemoryUsage
                                                 / float_of_int64 totalMemoryRequest) * 100)
                        else 0)
      in \<lparr>pm_Namespace = namespace, pm_PodName = podName,
          pm_CPUUsageMillicores = totalCPUUsage, pm_CPUUsagePercent = cpuPercent,
          pm_MemoryUsageBytes = totalMemoryUsage, pm_MemoryUsagePercent = memPercent,
          pm_CPURequestMillis = totalCPURequest, pm_MemoryRequestBytes = totalMemoryRequest\<rparr>)"

text \<open>
  \<open>checkPodMetrics\<close>: the body of its loop, for one snapshot. \<open>sent\<close> is the list of
  the alerts built and handed to the state manager's \<open>ProcessAlert\<close> so far, in order;
  what \<open>ProcessAlert\<close> answers only decides which line is logged.
\<close>

definition checkPodMetrics_body ::
  "AlertRulesConfig \<Rightarrow> Fmt \<Rightarrow> (nat \<Rightarrow> uuid) \<Rightarrow> time \<Rightarrow> PodMetrics \<Rightarrow> Alert list \<Rightarrow> Alert list" where
  "checkPodMetrics_body thresholds fmt ids now metrics sent =
     (if pm_CPURequestMillis metrics = 0 \<and> pm_MemoryRequestBytes metrics = 0 then sent
      else
        (let sent = (if 0 < sint (pm_CPURequestMillis metrics)
                        \<and> PodCPUPercent thresholds < pm_CPUUsagePercent metrics
                     then sent @ [BuildPodMetricAlert fmt (ids (length sent)) now
                                    (pm_Namespace metrics) (pm_PodName metrics) AlertTypePodCPUHigh
                                    (pm_CPUUsagePercent metrics) (PodCPUPercent thresholds)]
                     else sent);
             sent = (if 0 < sint (pm_MemoryRequestBytes metrics)
                        \<and> PodMemoryPercent thresholds < pm_MemoryUsagePercent metrics
                     then sent @ [BuildPodMetricAlert fmt (ids (length sent)) now
                                    (pm_Namespace metrics) (pm_PodName metrics) AlertTypePodMemoryHigh
                                    (pm_MemoryUsagePercent metrics) (PodMemoryPercent thresholds)]
                     else sent)
         in sent))"

fun checkPodMetrics_loop ::
  "AlertRulesConfig \<Rightarrow> Fmt \<Rightarrow> (nat \<Rightarrow> uuid) \<Rightarrow> time \<Rightarrow> PodMetrics list \<Rightarrow> Alert list \<Rightarrow> Alert list" where
  "checkPodMetrics_loop thresholds fmt ids now [] sent = sent"
| "checkPodMetrics_loop thresholds fmt ids now (m # ms) sent =
     checkPodMetrics_loop thresholds fmt ids now ms
       (checkPodMetrics_body thresholds fmt ids now m sent)"

text \<open>\<open>podMetrics\<close> is what \<open>GetAllPodsMetrics\<close> answered: an error or the snapshots.\<close>

definition checkPodMetrics ::
  "AlertRulesConfig \<Rightarrow> Fmt \<Rightarrow> (nat \<Rightarrow> uuid) \<Rightarrow> time \<Rightarrow> error + PodMetrics list
     \<Rightarrow> error option \<times> Alert list" where
  "checkPodMetrics thresholds fmt ids now podMetrics =
     (case podMetrics of
        Inl err \<Rightarrow> (Some err, [])
      | Inr ms \<Rightarrow> (None, checkPodMetrics_loop thresholds fmt ids now ms []))"

definition checkNodeMetrics_body ::
  "AlertRulesConfig \<Rightarrow> Fmt \<Rightarrow> (nat \<Rightarrow> uuid) \<Rightarrow> time \<Rightarrow> NodeMetrics \<Rightarrow> Alert list \<Rightarrow> Alert list" where
  "checkNodeMetrics_body thresholds fmt ids now metrics sent =
     (let sent = (if NodeCPUPercent thresholds < nm_CPUUsagePercent metrics
                  then sent @ [BuildNodeMetricAlert fmt (ids (length sent)) now
                                 (nm_NodeName metrics) AlertTypeNodeCPUHigh
                                 (nm_CPUUsagePercent metrics) (NodeCPUPercent thresholds)]
                  else sent);
          sent = (if NodeMemoryPercent thresholds < nm_MemoryUsagePercent metrics
                  then sent @ [BuildNodeMetricAlert fmt (ids (length sent)) now
                                 (nm_NodeName metrics) AlertTypeNodeMemoryHigh
                                 (nm_MemoryUsagePercent metrics) (NodeMemoryPercent thresholds)]
                  else sent)
      in sent)"

fun checkNodeMetrics_loop ::
  "AlertRulesConfig \<Rightarrow> Fmt \<Rightarrow> (nat \<Rightarrow> uuid) \<Rightarrow> time \<Rightarrow> NodeMetrics list \<Rightarrow> Alert list \<Rightarrow> Alert list" where
  "checkNodeMetrics_loop thresholds fmt ids now [] sent = sent"
| "checkNodeMetrics_loop thresholds fmt ids now (m # ms) sent =
     checkNodeMetrics_loop thresholds fmt ids now ms
       (checkNodeMetrics_body thresholds fmt ids now m sent)"

definition checkNodeMetrics ::
  "AlertRulesConfig \<Rightarrow> Fmt \<Rightarrow> (nat \<Rightarrow> uuid) \<Rightarrow> time \<Rightarrow> error + NodeMetrics list
     \<Rightarrow> error option \<times> Alert list" where
  "checkNodeMetrics thresholds fmt ids now nodeMetrics =
     (case nodeMetrics of
        Inl err \<Rightarrow> (Some err, [])
      | Inr ms \<Rightarrow> (None, checkNodeMetrics_loop thresholds fmt ids now ms []))"

section \<open>Email dispatcher (package notifier)\<close>

text \<open>
  The SMTP server is outside the program: \<open>smtp k\<close> is what the \<open>k\<close>-th call of
  \<open>smtp.SendMail\<close> answers. The dispatcher's effects are gathered in \<open>Outbox\<close>: the
  mails handed to \<open>SendMail\<close> (address, sender, recipients, message), the time slept
  and the lines logged.
\<close>

record Outbox =
  attempts :: "(string \<times> string \<times> string list \<times> string) list"
  slept :: int
  email_log :: "string list"

fun OnAlert_retry ::
  "(nat \<Rightarrow> error option) \<Rightarrow> string \<times> string \<times> string list \<times> string \<Rightarrow> nat \<Rightarrow> error option
     \<Rightarrow> Outbox \<Rightarrow> error option \<times> Outbox" where
  "OnAlert_retry smtp mail 0 err out =
     (Some (case err of
              Some e \<Rightarrow> Wrap ''email dispatch failed after retries: '' e
            | None \<Rightarrow> Errorf ''email dispatch failed after retries: %!w(<nil>)''),
      out)"
| "OnAlert_retry smtp mail (Suc n) err out =
     (let k = length (attempts out);
          out1 = out\<lparr>attempts := attempts out @ [mail]\<rparr>
      in case smtp k of
           None \<Rightarrow> (None, out1\<lparr>email_log := email_log out1 @ [''Alert email sent'']\<rparr>)
         | Some e \<Rightarrow> OnAlert_retry smtp mail n (Some e) (out1\<lparr>slept := slept out1 + 1 * Second\<rparr>))"

definition OnAlert ::
  "EmailConfig \<Rightarrow> Fmt \<Rightarrow> (nat \<Rightarrow> error option) \<Rightarrow> AlertEvent \<Rightarrow> Outbox \<Rightarrow> error option \<times> Outbox" where
  "OnAlert config fmt smtp event out =
     (if SMTPHost config = '''' \<or> Username config = '''' then
        (None, out\<lparr>email_log := email_log out
                       @ [''Email configuration incomplete, skipping email dispatch'']\<rparr>)
      else
        (let a = ev_Alert event;
             subject = ''Alert: '' @ Severity a @ '' - '' @ Source a;
             body = [CHR 0x0A] @ ''Monitoring Alert'' @ [CHR 0x0A, CHR 0x0A]
                    @ ''Severity: '' @ Severity a @ [CHR 0x0A]
                    @ ''Source: '' @ Source a @ [CHR 0x0A]
                    @ ''Message: '' @ Message a @ [CHR 0x0A]
                    @ ''Value: '' @ fmt_f2 fmt (Value a) @ [CHR 0x0A]
                    @ ''Timestamp: '' @ fmt_rfc3339 fmt (CreatedAt a) @ [CHR 0x0A, CHR 0x0A]
                    @ ''Labels:'' @ [CHR 0x0A] @ fmt_v_labels fmt (Labels a) @ [CHR 0x0A, CHR 0x0A]
                    @ ''--'' @ [CHR 0x0A] @ ''Monitoring Engine'' @ [CHR 0x0A];
             message = ''Subject: '' @ subject @ [CHR 0x0D, CHR 0x0A, CHR 0x0D, CHR 0x0A] @ body;
             addr = SMTPHost config @ '':'' @ fmt_d (sint (SMTPPort config))
         in OnAlert_retry smtp (addr, From config, To config, message) 2 None out))"

section \<open>The severity table of the specification\<close>

text \<open>
  The table of section 4.3 of the specification, as a function from the alert type to
  the severity (the empty string for a type that is not in the table).
\<close>

definition spec_severity :: "AlertType \<Rightarrow> string" where
  "spec_severity ty =
     (if ty \<in> {''pod_failed'', ''pod_unknown'', ''pod_oom_killed'', ''node_not_ready''}
      then ''critical''
      else if ty \<in> {''pod_crash_loop'', ''pod_image_pull'', ''pod_restart_threshold'',
                     ''node_memory_pressure'', ''node_disk_pressure'', ''pod_cpu_high'',
                     ''pod_memory_high''}
      then ''high''
      else if ty \<in> {''pod_pending'', ''node_pid_pressure''} then ''medium''
      else if ty \<in> {''node_cpu_high'', ''node_memory_high''} then ''critical''
      else '''')"

text \<open>The alert type is read from the label \<open>alert_type\<close>.\<close>

definition alert_type :: "Alert \<Rightarrow> string option" where
  "alert_type a = Labels a ''alert_type''"

text \<open>An alert with its identifier and its three timestamps blanked.\<close>

definition ids_and_times_aside :: "Alert \<Rightarrow> Alert" where
  "ids_and_times_aside a = a\<lparr>ID := 0, TriggeredAt := 0, CreatedAt := 0, UpdatedAt := 0\<rparr>"

section \<open>Notions used to state the evaluator's properties\<close>

text \<open>
  The alert types that the loop over the container statuses can emit, and those that
  the steps before the restart check can emit.
\<close>

definition container_types :: "string option set" where
  "container_types = {Some AlertTypePodOOMKilled, Some AlertTypePodCrashLoop,
                      Some AlertTypePodImagePullError}"

definition early_types :: "string option set" where
  "early_types = {Some AlertTypePodFailed, Some AlertTypePodUnknown, Some AlertTypePodOOMKilled,
                  Some AlertTypePodCrashLoop, Some AlertTypePodImagePullError}"

text \<open>
  The alerts that \<open>evaluatePodConditions\<close> holds when it reaches its restart check:
  those of the phase checks and of the loop over the container statuses.
\<close>

definition evaluatePodConditions_early :: "(nat \<Rightarrow> uuid) \<Rightarrow> time \<Rightarrow> Pod \<Rightarrow> Alert list" where
  "evaluatePodConditions_early ids now pod =
     snd (evaluatePodConditions_loop ids now pod (pod_ContainerStatuses pod)
            (0, if pod_Phase pod = PodFailed
                then [BuildPodAlert (ids 0) now pod AlertTypePodFailed 1]
                else if pod_Phase pod = PodUnknown
                then [BuildPodAlert (ids 0) now pod AlertTypePodUnknown 1]
                else []))"

text \<open>The sum of the containers' restart counts, in 32 bits as the code adds them.\<close>

definition totalRestarts_of :: "Pod \<Rightarrow> int32" where
  "totalRestarts_of pod = sum_list (map cs_RestartCount (pod_ContainerStatuses pod))"

section \<open>Example inputs\<close>

text \<open>
  Concrete inputs on which the theorems are run: the literal inputs of the scenarios
  in section 8 of the specification, and small repository, bus and pool states in the
  manner of the repository's tests.
\<close>

definition example_alert :: "uuid \<Rightarrow> time \<Rightarrow> string \<Rightarrow> Alert" where
  "example_alert uid t msg = NewAlert uid t ''high'' msg ''k8s_pod'' 1 Map.empty"

definition three_alerts :: "Alert list" where
  "three_alerts = [example_alert 1 100 ''first'', example_alert 2 200 ''second'',
                   example_alert 3 300 ''third'']"

definition new_manager :: "(InMemoryAlertRepo, nat) AlertStateManager" where
  "new_manager = \<lparr>alertRepo = NewInMemoryAlertRepo, eventBus = NewEventBus, asm_log = []\<rparr>"

definition failing_manager :: "(PostgresAlertRepo, nat) AlertStateManager" where
  "failing_manager =
     \<lparr>alertRepo = \<lparr>db_rows = [], db_error = Some (Errorf ''connection refused'')\<rparr>,
      eventBus = NewEventBus, asm_log = []\<rparr>"

text \<open>A pool of 2 workers and queue size 3 whose queue is full; the same pool, stopped.\<close>

definition full_pool :: "nat WorkerPool" where
  "full_pool = \<lparr>workerCount = 2, taskQueue = \<lparr>buf = [1, 2, 3], cap = 3, closed = False\<rparr>,
                stopChan = \<lparr>buf = [], cap = 0, closed = False\<rparr>, wg = 2, stopped = False\<rparr>"

definition stopped_pool :: "nat WorkerPool" where
  "stopped_pool = \<lparr>workerCount = 2, taskQueue = \<lparr>buf = [], cap = 3, closed = True\<rparr>,
                   stopChan = \<lparr>buf = [], cap = 0, closed = True\<rparr>, wg = 0, stopped = True\<rparr>"

definition stopped_bus :: "nat EventBus" where
  "stopped_bus = \<lparr>observers = [], eventChan = \<lparr>buf = [], cap = 200, closed = False\<rparr>,
                  stopCh = \<lparr>buf = [], cap = 0, closed = True\<rparr>, bus_wg = 0, bus_log = []\<rparr>"

text \<open>
  Alert rules as \<open>Load\<close> leaves them (scenario S4 has the pod CPU threshold 80), the
  same with a negative restart threshold, a formatter that prints the integer part,
  and identifiers drawn in sequence.
\<close>

definition example_rules :: AlertRulesConfig where
  "example_rules =
     \<lparr>PodRestartThreshold = 5, PodCPUThreshold = 80, PodMemoryThreshold = 80,
      NodeCPUThreshold = 90, NodeMemoryThreshold = 90, MetricsCheckInterval = 60,
      PodCPUPercent = 80, PodMemoryPercent = 80, NodeCPUPercent = 90, NodeMemoryPercent = 90\<rparr>"

definition negative_rules :: AlertRulesConfig where
  "negative_rules =
     \<lparr>PodRestartThreshold = - 1, PodCPUThreshold = 80, PodMemoryThreshold = 80,
      NodeCPUThreshold = 90, NodeMemoryThreshold = 90, MetricsCheckInterval = 60,
      PodCPUPercent = 80, PodMemoryPercent = 80, NodeCPUPercent = 90, NodeMemoryPercent = 90\<rparr>"

definition example_fmt :: Fmt where
  "example_fmt = \<lparr>fmt_f1 = (\<lambda>x. fmt_d \<lfloor>x\<rfloor>), fmt_f2 = (\<lambda>x. fmt_d \<lfloor>x\<rfloor>), fmt_rfc3339 = fmt_d,
                  fmt_v_labels = (\<lambda>l. [])\<rparr>"

definition example_ids :: "nat \<Rightarrow> uuid" where
  "example_ids = (\<lambda>k. of_nat k)"

text \<open>
  A pod in phase Pending created at instant 0 (scenario S2); a running pod whose
  containers restarted 2, 7 and 7 times; a running pod whose containers never
  restarted; a node that is not ready (scenario S3).
\<close>

definition pending_pod :: Pod where
  "pending_pod = \<lparr>pod_Namespace = ''prod'', pod_Name = ''web-7'', pod_CreationTimestamp = 0,
                  pod_Phase = ''Pending'', pod_Reason = [], pod_Message = [],
                  pod_ContainerStatuses = []\<rparr>"

definition restarting_pod :: Pod where
  "restarting_pod =
     \<lparr>pod_Namespace = ''prod'', pod_Name = ''web-7'', pod_CreationTimestamp = 0,
      pod_Phase = ''Running'', pod_Reason = [], pod_Message = [],
      pod_ContainerStatuses =
        [\<lparr>cs_Name = ''init'', cs_RestartCount = 2, cs_Waiting = None, cs_LastTerminated = None\<rparr>,
         \<lparr>cs_Name = ''app'', cs_RestartCount = 7, cs_Waiting = None, cs_LastTerminated = None\<rparr>,
         \<lparr>cs_Name = ''sidecar'', cs_RestartCount = 7, cs_Waiting = None, cs_LastTerminated = None\<rparr>]\<rparr>"

definition idle_pod :: Pod where
  "idle_pod =
     \<lparr>pod_Namespace = ''prod'', pod_Name = ''web-7'', pod_CreationTimestamp = 0,
      pod_Phase = ''Running'', pod_Reason = [], pod_Message = [],
      pod_ContainerStatuses =
        [\<lparr>cs_Name = ''app'', cs_RestartCount = 0, cs_Waiting = None, cs_LastTerminated = None\<rparr>,
         \<lparr>cs_Name = ''sidecar'', cs_RestartCount = 0, cs_Waiting = None, cs_LastTerminated = None\<rparr>]\<rparr>"

definition not_ready_node :: Node where
  "not_ready_node =
     \<lparr>node_Name = ''n1'',
      node_Conditions = [\<lparr>nc_Type = ''Ready'', nc_Status = ''False'',
                          nc_Reason = ''KubeletNotReady''\<rparr>]\<rparr>"

text \<open>An email configuration with no SMTP host, and an empty outbox.\<close>

definition incomplete_email_config :: EmailConfig where
  "incomplete_email_config =
     \<lparr>Enabled = True, SMTPHost = [], SMTPPort = 587, Username = ''ops'', Password = ''pw'',
      From = ''a@b'', To = [''c@d'']\<rparr>"

definition empty_outbox :: Outbox where
  "empty_outbox = \<lparr>attempts = [], slept = 0, email_log = []\<rparr>"

section \<open>State manager and event bus: properties\<close>

lemma closed_make_chan [simp]: "\<not> closed (make_chan n)"
  by (simp add: make_chan_def)

lemma Publish_open:
  assumes "\<not> closed (eventChan eb)"
  shows "Publish eb ev =
           Inr (if length (buf (eventChan eb)) < cap (eventChan eb)
                then eb\<lparr>eventChan := (eventChan eb)\<lparr>buf := buf (eventChan eb) @ [ev]\<rparr>\<rparr>
                else eb\<lparr>bus_log := bus_log eb @ [''Event bus channel full, dropping event'']\<rparr>)"
  using assms by (simp add: Publish_def chan_try_send_def)

text \<open>
  C1. \<open>ProcessAlert\<close> calls the repository's \<open>Create\<close> first. When \<open>Create\<close> answers
  with an error, \<open>ProcessAlert\<close> returns \<open>(false, that error)\<close> and the event bus is
  as it was: nothing is published. When \<open>Create\<close> succeeds, \<open>ProcessAlert\<close> hands
  exactly one event, carrying that alert and the current time, to \<open>Publish\<close>, and
  returns \<open>(true, nil)\<close>. \<open>Publish\<close> puts the event at the end of the bus channel;
  when the channel already holds its 200 events, \<open>Publish\<close> drops the event and the
  channel stays as it was. (No code closes the bus channel: that is the hypothesis.)
\<close>

theorem C1_process_alert:
  assumes "\<not> closed (eventChan (eventBus asm))"
  shows "(\<forall>err r'. create (alertRepo asm) alert = (Some err, r') \<longrightarrow>
            ProcessAlert create now alert asm = Inr ((False, Some err), asm\<lparr>alertRepo := r'\<rparr>))
       \<and> (\<forall>r'. create (alertRepo asm) alert = (None, r') \<longrightarrow>
            (\<exists>eb'. Publish (eventBus asm) \<lparr>ev_Alert = alert, ev_Timestamp = now\<rparr> = Inr eb'
               \<and> ProcessAlert create now alert asm =
                   Inr ((True, None),
                        asm\<lparr>alertRepo := r', eventBus := eb',
                            asm_log := asm_log asm @ [''Alert created and published'']\<rparr>)
               \<and> buf (eventChan eb') =
                   (if length (buf (eventChan (eventBus asm))) < cap (eventChan (eventBus asm))
                    then buf (eventChan (eventBus asm)) @ [\<lparr>ev_Alert = alert, ev_Timestamp = now\<rparr>]
                    else buf (eventChan (eventBus asm)))))"
  using Publish_open [OF assms]
  by (auto simp: ProcessAlert_def)

theorem C1_process_alert_witness:
  "ProcessAlert InMemory_Create 5 (example_alert 1 5 ''m'') new_manager
     = Inr ((True, None),
            \<lparr>alertRepo = \<lparr>alerts = [example_alert 1 5 ''m'']\<rparr>,
             eventBus = \<lparr>observers = [],
                         eventChan = \<lparr>buf = [\<lparr>ev_Alert = example_alert 1 5 ''m'', ev_Timestamp = 5\<rparr>],
                                      cap = 200, closed = False\<rparr>,
                         stopCh = \<lparr>buf = [], cap = 0, closed = False\<rparr>,
                         bus_wg = 0, bus_log = []\<rparr>,
             asm_log = [''Alert created and published'']\<rparr>)
   \<and> ProcessAlert Postgres_Create 5 (example_alert 1 5 ''m'') failing_manager
     = Inr ((False, Some (Errorf ''connection refused'')), failing_manager)"
proof -
  let ?a = "example_alert 1 5 ''m''"
  have o1: "\<not> closed (eventChan (eventBus new_manager))"
    by (simp add: new_manager_def NewEventBus_def)
  have o2: "\<not> closed (eventChan (eventBus failing_manager))"
    by (simp add: failing_manager_def NewEventBus_def)
  have c1: "InMemory_Create (alertRepo new_manager) ?a = (None, \<lparr>alerts = [?a]\<rparr>)"
    by (simp add: InMemory_Create_def new_manager_def NewInMemoryAlertRepo_def)
  have c2: "Postgres_Create (alertRepo failing_manager) ?a
              = (Some (Errorf ''connection refused''), alertRepo failing_manager)"
    by (simp add: Postgres_Create_def failing_manager_def)
  show ?thesis
    using C1_process_alert [OF o1, of InMemory_Create ?a 5] c1
          C1_process_alert [OF o2, of Postgres_Create ?a 5] c2
    by (simp add: Publish_def chan_try_send_def new_manager_def failing_manager_def
        NewEventBus_def make_chan_def)
qed

text \<open>
  C2, as amended. On a worker pool that is already stopped, \<open>Stop\<close> returns at once,
  without a panic and without changing the pool; so a second \<open>Stop\<close> after a first
  one that returned leaves the pool as the first one left it, and the first one
  does return on every pool state that can arise.
\<close>

theorem C2_pool_stop_twice:
  "(stopped wp \<longrightarrow> Stop wp = Inr wp)
   \<and> (\<forall>wp'. Stop wp = Inr wp' \<longrightarrow> stopped wp' \<and> Stop wp' = Inr wp')
   \<and> (pool_inv wp \<longrightarrow> (\<exists>wp'. Stop wp = Inr wp'))"
  by (auto simp: Stop_def pool_inv_def chan_close_def Let_def split: if_splits)

theorem C2_pool_stop_twice_witness:
  "pool_inv (NewWorkerPool 2 3 :: nat WorkerPool)
   \<and> Stop (NewWorkerPool 2 3 :: nat WorkerPool) = Inr stopped_pool
   \<and> stopped stopped_pool
   \<and> Stop stopped_pool = Inr stopped_pool"
proof -
  let ?wp = "NewWorkerPool 2 3 :: nat WorkerPool"
  have i: "pool_inv ?wp" by (simp add: pool_inv_def NewWorkerPool_def make_chan_def)
  have s1: "Stop ?wp = Inr stopped_pool"
    by (simp add: Stop_def NewWorkerPool_def make_chan_def chan_close_def stopped_pool_def)
  have "stopped stopped_pool \<and> Stop stopped_pool = Inr stopped_pool"
    using C2_pool_stop_twice [of ?wp] s1 by blast
  with i s1 show ?thesis by blast
qed

text \<open>
  The claim as stated fails on the event bus, whose \<open>Stop\<close> closes the stop channel
  with no guard: the first \<open>Stop\<close> of a new bus returns, the second panics (close of
  a closed channel). The WebSocket hub declares no \<open>Stop\<close> at all.
\<close>

theorem C2_bus_stop_twice_counterexample:
  "EventBus_Stop (NewEventBus :: nat EventBus) = Inr stopped_bus
   \<and> EventBus_Stop stopped_bus = Inl CloseOfClosedChannel"
  by (simp add: EventBus_Stop_def NewEventBus_def chan_close_def make_chan_def stopped_bus_def)

section \<open>Alert repositories: properties\<close>

lemma sint_of_nat_small:
  assumes "n < 2 ^ 63"
  shows "sint (word_of_nat n :: 64 word) = int n"
proof -
  have "int n < 2 ^ 63" using assms by (metis of_nat_less_numeral_power_cancel_iff)
  then have "- (2 ^ 63) \<le> int n \<and> int n < 2 ^ 63" by simp
  then show ?thesis
    by (simp add: signed_of_nat signed_take_bit_int_eq_self)
qed

lemma sint_len_minus:
  fixes limit :: "64 word"
  assumes "n < 2 ^ 63" and "- (2 ^ 63) \<le> int n - sint limit" and "int n - sint limit < 2 ^ 63"
  shows "sint (word_of_nat n - limit :: 64 word) = int n - sint limit"
proof -
  have a: "sint (word_of_nat n :: 64 word) = int n"
    using assms(1) by (rule sint_of_nat_small)
  show ?thesis using assms(2,3)
    by (simp add: sint_word_diff a signed_take_bit_int_eq_self)
qed

lemma GetRecent_nonneg:
  assumes "length (alerts r) < 2 ^ 63" and "0 \<le> sint limit"
  shows "InMemory_GetRecent r limit =
           Inr ((drop (length (alerts r) - nat (sint limit)) (alerts r), None), r)"
proof -
  let ?n = "length (alerts r)"
  have ub: "sint limit < 2 ^ 63" using sint_lt [of limit] by simp
  have d: "sint (word_of_nat ?n - limit :: 64 word) = int ?n - sint limit"
    using assms ub by (intro sint_len_minus) auto
  show ?thesis
  proof (cases "int ?n - sint limit < 0")
    case True
    then have "?n - nat (sint limit) = 0" by simp
    with True d show ?thesis by (simp add: InMemory_GetRecent_def Let_def)
  next
    case False
    then have "nat (int ?n - sint limit) = ?n - nat (sint limit)" using assms(2) by simp
    with False d assms(2) show ?thesis by (simp add: InMemory_GetRecent_def Let_def)
  qed
qed

lemma GetRecent_negative:
  assumes "length (alerts r) < 2 ^ 63" and "sint limit < 0"
    and "int (length (alerts r)) - sint limit < 2 ^ 63"
  shows "InMemory_GetRecent r limit = Inl SliceBoundsOutOfRange"
proof -
  let ?n = "length (alerts r)"
  have d: "sint (word_of_nat ?n - limit :: 64 word) = int ?n - sint limit"
    using assms by (intro sint_len_minus) auto
  show ?thesis using d assms(2) by (simp add: InMemory_GetRecent_def Let_def)
qed

lemma Postgres_desc:
  "sorted_wrt (\<lambda>a b. TriggeredAt b \<le> TriggeredAt a) (order_triggered_at_desc rows)"
proof -
  have "sorted (map TriggeredAt (sort_key TriggeredAt rows))" by (rule sorted_sort_key)
  then have "sorted_wrt (\<lambda>a b. TriggeredAt a \<le> TriggeredAt b) (sort_key TriggeredAt rows)"
    by (simp add: sorted_wrt_map)
  then show ?thesis by (simp add: order_triggered_at_desc_def sorted_wrt_rev)
qed

lemma TriggeredAt_example [simp]: "TriggeredAt (example_alert uid t msg) = t"
  by (simp add: example_alert_def NewAlert_def)

text \<open>
  C4, as amended. For a non-negative limit, the in-memory repository's \<open>GetRecent\<close>
  returns the last \<open>limit\<close> stored alerts (all of them when there are fewer), at most
  \<open>limit\<close> of them, in the order they were stored: oldest of them first, so ascending
  by \<open>triggered_at\<close> when the alerts were stored in the order of their \<open>triggered_at\<close>.
  The PostgreSQL repository's \<open>GetRecent\<close>, when the database answers, returns at
  most \<open>limit\<close> alerts in descending order of \<open>triggered_at\<close>.
  (The length of a Go slice is less than \<open>2 ^ 63\<close>: that is the first hypothesis.)
\<close>

theorem C4_get_recent_order:
  assumes "length (alerts r) < 2 ^ 63" and "0 \<le> sint limit"
  shows "InMemory_GetRecent r limit =
           Inr ((drop (length (alerts r) - nat (sint limit)) (alerts r), None), r)
       \<and> length (drop (length (alerts r) - nat (sint limit)) (alerts r)) \<le> nat (sint limit)
       \<and> (sorted_wrt (\<lambda>a b. TriggeredAt a \<le> TriggeredAt b) (alerts r) \<longrightarrow>
            sorted_wrt (\<lambda>a b. TriggeredAt a \<le> TriggeredAt b)
              (drop (length (alerts r) - nat (sint limit)) (alerts r)))
       \<and> (db_error p = None \<longrightarrow>
            Postgres_GetRecent p limit
              = (take (nat (sint limit)) (order_triggered_at_desc (db_rows p)), None)
            \<and> length (fst (Postgres_GetRecent p limit)) \<le> nat (sint limit)
            \<and> sorted_wrt (\<lambda>a b. TriggeredAt b \<le> TriggeredAt a) (fst (Postgres_GetRecent p limit)))"
proof -
  have a: "InMemory_GetRecent r limit =
           Inr ((drop (length (alerts r) - nat (sint limit)) (alerts r), None), r)"
    using assms by (rule GetRecent_nonneg)
  have b: "length (drop (length (alerts r) - nat (sint limit)) (alerts r)) \<le> nat (sint limit)"
    by simp
  have c: "sorted_wrt (\<lambda>a b. TriggeredAt a \<le> TriggeredAt b) (alerts r) \<longrightarrow>
            sorted_wrt (\<lambda>a b. TriggeredAt a \<le> TriggeredAt b)
              (drop (length (alerts r) - nat (sint limit)) (alerts r))"
    by (simp add: sorted_wrt_drop)
  have d: "db_error p = None \<longrightarrow>
            Postgres_GetRecent p limit
              = (take (nat (sint limit)) (order_triggered_at_desc (db_rows p)), None)
            \<and> length (fst (Postgres_GetRecent p limit)) \<le> nat (sint limit)
            \<and> sorted_wrt (\<lambda>a b. TriggeredAt b \<le> TriggeredAt a) (fst (Postgres_GetRecent p limit))"
    using assms(2) Postgres_desc [of "db_rows p"]
    by (simp add: Postgres_GetRecent_def sql_limit_def sorted_wrt_take)
  from a b c d show ?thesis by blast
qed

theorem C4_get_recent_order_witness:
  "InMemory_GetRecent \<lparr>alerts = three_alerts\<rparr> 2
     = Inr (([example_alert 2 200 ''second'', example_alert 3 300 ''third''], None),
            \<lparr>alerts = three_alerts\<rparr>)
   \<and> Postgres_GetRecent \<lparr>db_rows = three_alerts, db_error = None\<rparr> 2
     = ([example_alert 3 300 ''third'', example_alert 2 200 ''second''], None)"
proof -
  let ?r = "\<lparr>alerts = three_alerts\<rparr>"
  let ?p = "\<lparr>db_rows = three_alerts, db_error = None\<rparr>"
  have h1: "length (alerts ?r) < 2 ^ 63" by (simp add: three_alerts_def)
  have h2: "0 \<le> sint (2 :: go_int)" by simp
  have h3: "sorted_wrt (\<lambda>a b. TriggeredAt a \<le> TriggeredAt b) (alerts ?r)"
    by (simp add: three_alerts_def)
  have h4: "db_error ?p = None" by simp
  have o: "order_triggered_at_desc three_alerts
             = [example_alert 3 300 ''third'', example_alert 2 200 ''second'',
                example_alert 1 100 ''first'']"
    by (simp add: order_triggered_at_desc_def three_alerts_def)
  show ?thesis
    using C4_get_recent_order [OF h1 h2, of ?p] h3 h4 o
    by (simp add: numeral_2_eq_2 three_alerts_def)
qed

text \<open>
  The claim as stated fails on the in-memory repository: of three alerts stored in
  the order of their \<open>triggered_at\<close>, \<open>GetRecent 2\<close> returns the last two with the
  older one first, which is not descending; and for the limit -1 it returns nothing
  (the slice expression panics).
\<close>

theorem C4_get_recent_order_counterexample:
  "InMemory_GetRecent \<lparr>alerts = three_alerts\<rparr> 2
     = Inr (([example_alert 2 200 ''second'', example_alert 3 300 ''third''], None),
            \<lparr>alerts = three_alerts\<rparr>)
   \<and> \<not> sorted_wrt (\<lambda>a b. TriggeredAt b \<le> TriggeredAt a)
         [example_alert 2 200 ''second'', example_alert 3 300 ''third'']
   \<and> InMemory_GetRecent \<lparr>alerts = three_alerts\<rparr> (- 1) = Inl SliceBoundsOutOfRange"
  by (simp add: InMemory_GetRecent_def three_alerts_def)

text \<open>
  C10. For every in-memory repository state and every non-negative limit, \<open>GetRecent\<close>
  returns exactly \<open>min limit n\<close> alerts, \<open>n\<close> the number of stored alerts, with a nil
  error, and leaves the repository as it was. The precondition is needed: for a
  negative limit the lower bound \<open>n - limit\<close> of the slice expression is beyond
  \<open>n\<close> and the slice expression panics (whenever \<open>n - limit\<close> does not overflow
  64 bits).
  (The length of a Go slice is less than \<open>2 ^ 63\<close>: that is the hypothesis.)
\<close>

theorem C10_get_recent_length:
  assumes "length (alerts r) < 2 ^ 63"
  shows "(0 \<le> sint limit \<longrightarrow>
            (\<exists>res. InMemory_GetRecent r limit = Inr ((res, None), r)
                  \<and> length res = min (nat (sint limit)) (length (alerts r))))
       \<and> (sint limit < 0 \<and> int (length (alerts r)) - sint limit < 2 ^ 63 \<longrightarrow>
            InMemory_GetRecent r limit = Inl SliceBoundsOutOfRange)"
proof -
  have "0 \<le> sint limit \<Longrightarrow>
          \<exists>res. InMemory_GetRecent r limit = Inr ((res, None), r)
                  \<and> length res = min (nat (sint limit)) (length (alerts r))"
    using GetRecent_nonneg [OF assms] by auto
  moreover have "sint limit < 0 \<and> int (length (alerts r)) - sint limit < 2 ^ 63 \<Longrightarrow>
            InMemory_GetRecent r limit = Inl SliceBoundsOutOfRange"
    using GetRecent_negative [OF assms] by blast
  ultimately show ?thesis by blast
qed

theorem C10_get_recent_length_witness:
  "InMemory_GetRecent \<lparr>alerts = three_alerts\<rparr> (- 1) = Inl SliceBoundsOutOfRange
   \<and> (\<exists>res. InMemory_GetRecent \<lparr>alerts = three_alerts\<rparr> 2
               = Inr ((res, None), \<lparr>alerts = three_alerts\<rparr>)
             \<and> length res = 2)
   \<and> (\<exists>res. InMemory_GetRecent \<lparr>alerts = three_alerts\<rparr> 10
               = Inr ((res, None), \<lparr>alerts = three_alerts\<rparr>)
             \<and> length res = 3)"
proof -
  let ?r = "\<lparr>alerts = three_alerts\<rparr>"
  have h1: "length (alerts ?r) < 2 ^ 63" by (simp add: three_alerts_def)
  have h2: "0 \<le> sint (2 :: go_int)" "0 \<le> sint (10 :: go_int)" by simp_all
  have h3: "sint (- 1 :: go_int) < 0 \<and> int (length (alerts ?r)) - sint (- 1 :: go_int) < 2 ^ 63"
    by (simp add: three_alerts_def)
  have n: "length three_alerts = 3" by (simp add: three_alerts_def)
  show ?thesis
    using C10_get_recent_length [OF h1, of 2] C10_get_recent_length [OF h1, of 10]
      C10_get_recent_length [OF h1, of "- 1"] h2 h3
    by (simp add: n)
qed

section \<open>Worker pool: properties\<close>

lemma pool_inv_New: "pool_inv (NewWorkerPool n q)"
  by (simp add: pool_inv_def NewWorkerPool_def make_chan_def Let_def)

lemma pool_inv_Start: "pool_inv wp \<Longrightarrow> pool_inv (Start wp)"
  by (simp add: pool_inv_def Start_def)

lemma pool_inv_Submit: "pool_inv wp \<Longrightarrow> Submit wp t = Inr (e, wp') \<Longrightarrow> pool_inv wp'"
  by (auto simp: pool_inv_def Submit_def chan_try_send_def split: if_splits)

lemma pool_inv_worker_take: "pool_inv wp \<Longrightarrow> worker_take wp = Some (t, wp') \<Longrightarrow> pool_inv wp'"
  by (auto simp: pool_inv_def worker_take_def split: list.splits)

lemma pool_inv_Stop: "Stop wp = Inr wp' \<Longrightarrow> stopped wp' \<and> pool_inv wp'"
  by (auto simp: pool_inv_def Stop_def chan_close_def Let_def split: if_splits)

text \<open>
  C6. \<open>Submit\<close> never blocks: on every pool state it returns at once with one of
  three outcomes. On a stopped pool it returns the error "worker pool is stopped" and
  leaves the pool as it was; on a running pool whose queue has room it appends the
  task to the queue and returns nil; on a running pool whose queue is at capacity it
  returns the error "task queue is full" and leaves the pool as it was.
  \<open>SubmitWithContext\<close> returns the context's error, leaving the pool as it was, when
  the context is already done, and behaves as \<open>Submit\<close> otherwise.
  (The hypothesis holds in every state of a pool: it holds of a new pool and
  \<open>Start\<close>, \<open>Submit\<close>, the workers and \<open>Stop\<close> keep it.)
\<close>

theorem C6_submit_outcomes:
  assumes "pool_inv wp"
  shows "(stopped wp \<longrightarrow> Submit wp task = Inr (Some (Errorf ''worker pool is stopped''), wp))
       \<and> (\<not> stopped wp \<and> length (buf (taskQueue wp)) < cap (taskQueue wp) \<longrightarrow>
            Submit wp task =
              Inr (None, wp\<lparr>taskQueue := (taskQueue wp)\<lparr>buf := buf (taskQueue wp) @ [task]\<rparr>\<rparr>))
       \<and> (\<not> stopped wp \<and> cap (taskQueue wp) \<le> length (buf (taskQueue wp)) \<longrightarrow>
            Submit wp task = Inr (Some (Errorf ''task queue is full''), wp))
       \<and> (\<exists>r. Submit wp task = Inr r)
       \<and> (\<forall>e. SubmitWithContext wp (Some e) task = Inr (Some e, wp))
       \<and> SubmitWithContext wp None task = Submit wp task"
  using assms
  by (auto simp: pool_inv_def Submit_def SubmitWithContext_def chan_try_send_def)

theorem C6_submit_outcomes_witness:
  "Submit (NewWorkerPool 2 3) (7::nat)
     = Inr (None, \<lparr>workerCount = 2, taskQueue = \<lparr>buf = [7], cap = 3, closed = False\<rparr>,
                   stopChan = \<lparr>buf = [], cap = 0, closed = False\<rparr>, wg = 0, stopped = False\<rparr>)
   \<and> Submit full_pool 6 = Inr (Some (Errorf ''task queue is full''), full_pool)
   \<and> Submit stopped_pool 6 = Inr (Some (Errorf ''worker pool is stopped''), stopped_pool)
   \<and> SubmitWithContext (NewWorkerPool 2 3) (Some Canceled) (7::nat)
     = Inr (Some Canceled, NewWorkerPool 2 3)"
proof -
  have i1: "pool_inv (NewWorkerPool 2 3 :: nat WorkerPool)" by (rule pool_inv_New)
  have i2: "pool_inv full_pool" by (simp add: pool_inv_def full_pool_def)
  have i3: "pool_inv stopped_pool" by (simp add: pool_inv_def stopped_pool_def)
  have f: "\<not> stopped full_pool \<and> cap (taskQueue full_pool) \<le> length (buf (taskQueue full_pool))"
    by (simp add: full_pool_def)
  have s: "stopped stopped_pool" by (simp add: stopped_pool_def)
  have n: "\<not> stopped (NewWorkerPool 2 3 :: nat WorkerPool)
           \<and> length (buf (taskQueue (NewWorkerPool 2 3 :: nat WorkerPool)))
               < cap (taskQueue (NewWorkerPool 2 3 :: nat WorkerPool))"
    by (simp add: NewWorkerPool_def make_chan_def)
  show ?thesis
    using C6_submit_outcomes [OF i1, of 7] C6_submit_outcomes [OF i2, of 6]
      C6_submit_outcomes [OF i3, of 6] f s n
    by (simp add: NewWorkerPool_def make_chan_def)
qed

section \<open>Alert builders and evaluators: properties\<close>

lemmas AlertType_defs =
  AlertTypePodFailed_def AlertTypePodOOMKilled_def AlertTypePodCrashLoop_def
  AlertTypePodRestartThreshold_def AlertTypePodImagePullError_def AlertTypePodPending_def
  AlertTypePodUnknown_def AlertTypeNodeNotReady_def AlertTypeNodeMemoryPressure_def
  AlertTypeNodeDiskPressure_def AlertTypeNodePIDPressure_def AlertTypePodCPUHigh_def
  AlertTypePodMemoryHigh_def AlertTypeNodeCPUHigh_def AlertTypeNodeMemoryHigh_def

lemmas Severity_defs = SeverityCritical_def SeverityHigh_def SeverityMedium_def SeverityLow_def

lemma BuildPodAlert_type [simp]: "alert_type (BuildPodAlert uid now pod ty v) = Some ty"
  by (simp add: BuildPodAlert_def NewAlert_def alert_type_def Let_def split: prod.splits)

lemma BuildPodAlert_Value [simp]: "Value (BuildPodAlert uid now pod ty v) = v"
  by (simp add: BuildPodAlert_def NewAlert_def Let_def split: prod.splits)

lemma BuildPodAlert_Source [simp]: "Source (BuildPodAlert uid now pod ty v) = ''k8s_pod''"
  by (simp add: BuildPodAlert_def NewAlert_def Let_def split: prod.splits)

lemma BuildPodAlert_Severity:
  "Severity (BuildPodAlert uid now pod ty v) =
     (if ty = AlertTypePodFailed \<or> ty = AlertTypePodOOMKilled \<or> ty = AlertTypePodUnknown
      then SeverityCritical
      else if ty = AlertTypePodCrashLoop \<or> ty = AlertTypePodRestartThreshold
              \<or> ty = AlertTypePodImagePullError
      then SeverityHigh
      else SeverityMedium)"
  by (simp add: BuildPodAlert_def NewAlert_def Let_def AlertType_defs split: prod.splits)

lemma BuildPodAlert_aside:
  "ids_and_times_aside (BuildPodAlert uid now pod ty v)
     = ids_and_times_aside (BuildPodAlert uid' now' pod ty v)"
  by (simp add: BuildPodAlert_def NewAlert_def ids_and_times_aside_def Let_def split: prod.splits)

lemma BuildNodeAlert_type [simp]: "alert_type (BuildNodeAlert uid now node ty v) = Some ty"
  by (simp add: BuildNodeAlert_def NewAlert_def alert_type_def Let_def split: prod.splits)

lemma BuildNodeAlert_Severity:
  "Severity (BuildNodeAlert uid now node ty v) =
     (if ty = AlertTypeNodeNotReady then SeverityCritical
      else if ty = AlertTypeNodeMemoryPressure \<or> ty = AlertTypeNodeDiskPressure then SeverityHigh
      else SeverityMedium)"
  by (simp add: BuildNodeAlert_def NewAlert_def Let_def AlertType_defs split: prod.splits)

lemma BuildNodeAlert_aside:
  "ids_and_times_aside (BuildNodeAlert uid now node ty v)
     = ids_and_times_aside (BuildNodeAlert uid' now' node ty v)"
  by (simp add: BuildNodeAlert_def NewAlert_def ids_and_times_aside_def Let_def split: prod.splits)

lemma BuildPodMetricAlert_type [simp]:
  "alert_type (BuildPodMetricAlert fmt uid now ns name ty v th) = Some ty"
  by (simp add: BuildPodMetricAlert_def NewAlert_def alert_type_def Let_def split: prod.splits)

lemma BuildPodMetricAlert_Value [simp]:
  "Value (BuildPodMetricAlert fmt uid now ns name ty v th) = v"
  by (simp add: BuildPodMetricAlert_def NewAlert_def Let_def split: prod.splits)

lemma BuildPodMetricAlert_Source [simp]:
  "Source (BuildPodMetricAlert fmt uid now ns name ty v th) = ''k8s_pod_metrics''"
  by (simp add: BuildPodMetricAlert_def NewAlert_def Let_def split: prod.splits)

lemma BuildPodMetricAlert_Severity:
  "Severity (BuildPodMetricAlert fmt uid now ns name ty v th) =
     (if ty = AlertTypePodCPUHigh \<or> ty = AlertTypePodMemoryHigh then SeverityHigh
      else SeverityMedium)"
  by (simp add: BuildPodMetricAlert_def NewAlert_def Let_def AlertType_defs split: prod.splits)

lemma BuildPodMetricAlert_aside:
  "ids_and_times_aside (BuildPodMetricAlert fmt uid now ns name ty v th)
     = ids_and_times_aside (BuildPodMetricAlert fmt uid' now' ns name ty v th)"
  by (simp add: BuildPodMetricAlert_def NewAlert_def ids_and_times_aside_def Let_def
      split: prod.splits)

lemma BuildNodeMetricAlert_type [simp]:
  "alert_type (BuildNodeMetricAlert fmt uid now name ty v th) = Some ty"
  by (simp add: BuildNodeMetricAlert_def NewAlert_def alert_type_def Let_def split: prod.splits)

lemma BuildNodeMetricAlert_Severity:
  "Severity (BuildNodeMetricAlert fmt uid now name ty v th) =
     (if ty = AlertTypeNodeCPUHigh \<or> ty = AlertTypeNodeMemoryHigh then SeverityCritical
      else SeverityMedium)"
  by (simp add: BuildNodeMetricAlert_def NewAlert_def Let_def AlertType_defs split: prod.splits)

lemma BuildNodeMetricAlert_aside:
  "ids_and_times_aside (BuildNodeMetricAlert fmt uid now name ty v th)
     = ids_and_times_aside (BuildNodeMetricAlert fmt uid' now' name ty v th)"
  by (simp add: BuildNodeMetricAlert_def NewAlert_def ids_and_times_aside_def Let_def
      split: prod.splits)

lemma checkPodMetrics_body_eq:
  "checkPodMetrics_body thr fmt ids now m sent =
     sent
     @ (if 0 < sint (pm_CPURequestMillis m) \<and> PodCPUPercent thr < pm_CPUUsagePercent m
        then [BuildPodMetricAlert fmt (ids (length sent)) now (pm_Namespace m) (pm_PodName m)
                AlertTypePodCPUHigh (pm_CPUUsagePercent m) (PodCPUPercent thr)]
        else [])
     @ (if 0 < sint (pm_MemoryRequestBytes m) \<and> PodMemoryPercent thr < pm_MemoryUsagePercent m
        then [BuildPodMetricAlert fmt
                (ids (length sent
                      + (if 0 < sint (pm_CPURequestMillis m)
                            \<and> PodCPUPercent thr < pm_CPUUsagePercent m then 1 else 0)))
                now (pm_Namespace m) (pm_PodName m)
                AlertTypePodMemoryHigh (pm_MemoryUsagePercent m) (PodMemoryPercent thr)]
        else [])"
  by (simp add: checkPodMetrics_body_def Let_def)

lemmas float64_eval =
  float64_round_def float64_exponent_def round_half_even_def Let_def
  exponent_up.simps exponent_down.simps

text \<open>
  The example rules are as \<open>Load\<close> leaves them. The percentage of scenario S4 (450
  millicores used of 500 requested) is 90 although the quotient 0.9 is not a
  \<open>float64\<close>; that of 55 millicores used of 100 requested is 55.00000000000001, above
  a threshold of 55.
\<close>

lemma example_rules_Load: "Load_AlertRules example_rules = example_rules"
  by (simp add: Load_AlertRules_def example_rules_def float_of_int64_def float64_eval)

lemma float_of_int64_exact:
  "float_of_int64 55 = 55" "float_of_int64 80 = 80" "float_of_int64 100 = 100"
  "float_of_int64 450 = 450" "float_of_int64 500 = 500"
  by (simp_all add: float_of_int64_def float64_eval)

lemma float_of_int64_rounds: "float_of_int64 800000000000000001 = 800000000000000000"
  by (simp add: float_of_int64_def float64_eval)

lemma int32_of_float_examples:
  "int32_of_float 16 = 16" "sint (int32_of_float (- 37 / 10)) = - 3"
  "sint (int32_of_float 4294967301) = - 2147483648"
  by (simp_all add: int32_of_float_def Let_def)

lemma percent_S4: "float64_round (float64_round (9 / 10) * 100) = 90"
  by (simp add: float64_eval)

lemma percent_rounds:
  "float64_round (float64_round (11 / 20) * 100) = 7740561859543041 / 140737488355328"
  by (simp add: float64_eval)

lemma GetPodMetrics_S4:
  "GetPodMetrics ''a'' ''b'' [(450, 100)] [(500, 0)]
     = \<lparr>pm_Namespace = ''a'', pm_PodName = ''b'', pm_CPUUsageMillicores = 450,
        pm_CPUUsagePercent = 90, pm_MemoryUsageBytes = 100, pm_MemoryUsagePercent = 0,
        pm_CPURequestMillis = 500, pm_MemoryRequestBytes = 0\<rparr>"
  by (simp add: GetPodMetrics_def float_of_int64_exact percent_S4)

lemma GetPodMetrics_rounds:
  "pm_CPUUsagePercent (GetPodMetrics ''a'' ''b'' [(55, 0)] [(100, 0)])
     = 7740561859543041 / 140737488355328
   \<and> 55 < pm_CPUUsagePercent (GetPodMetrics ''a'' ''b'' [(55, 0)] [(100, 0)])"
  by (simp add: GetPodMetrics_def float_of_int64_exact percent_rounds)

lemma BuildPodMetricAlert_pod [simp]:
  "Labels (BuildPodMetricAlert fmt uid now ns name ty v th) ''namespace'' = Some ns"
  "Labels (BuildPodMetricAlert fmt uid now ns name ty v th) ''pod'' = Some name"
  by (simp_all add: BuildPodMetricAlert_def NewAlert_def Let_def split: prod.splits)

lemma checkPodMetrics_loop_foldl:
  "checkPodMetrics_loop thr fmt ids now ms sent
     = foldl (\<lambda>sent m. checkPodMetrics_body thr fmt ids now m sent) sent ms"
  by (induction ms arbitrary: sent) simp_all

lemma checkPodMetrics_loop_cpu:
  "map (\<lambda>a. (Labels a ''namespace'', Labels a ''pod'', Value a))
       (filter (\<lambda>a. alert_type a = Some AlertTypePodCPUHigh)
          (checkPodMetrics_loop thr fmt ids now ms sent))
     = map (\<lambda>a. (Labels a ''namespace'', Labels a ''pod'', Value a))
         (filter (\<lambda>a. alert_type a = Some AlertTypePodCPUHigh) sent)
       @ map (\<lambda>m. (Some (pm_Namespace m), Some (pm_PodName m), pm_CPUUsagePercent m))
           (filter (\<lambda>m. 0 < sint (pm_CPURequestMillis m)
                         \<and> PodCPUPercent thr < pm_CPUUsagePercent m) ms)"
  by (induction ms arbitrary: sent) (simp_all add: checkPodMetrics_body_eq AlertType_defs)

lemma checkPodMetrics_loop_memory:
  "map (\<lambda>a. (Labels a ''namespace'', Labels a ''pod'', Value a))
       (filter (\<lambda>a. alert_type a = Some AlertTypePodMemoryHigh)
          (checkPodMetrics_loop thr fmt ids now ms sent))
     = map (\<lambda>a. (Labels a ''namespace'', Labels a ''pod'', Value a))
         (filter (\<lambda>a. alert_type a = Some AlertTypePodMemoryHigh) sent)
       @ map (\<lambda>m. (Some (pm_Namespace m), Some (pm_PodName m), pm_MemoryUsagePercent m))
           (filter (\<lambda>m. 0 < sint (pm_MemoryRequestBytes m)
                         \<and> PodMemoryPercent thr < pm_MemoryUsagePercent m) ms)"
  by (induction ms arbitrary: sent) (simp_all add: checkPodMetrics_body_eq AlertType_defs)

lemma checkPodMetrics_loop_set:
  "a \<in> set (checkPodMetrics_loop thr fmt ids now ms sent) \<Longrightarrow>
     a \<in> set sent
     \<or> (alert_type a = Some AlertTypePodCPUHigh \<or> alert_type a = Some AlertTypePodMemoryHigh)
        \<and> Severity a = SeverityHigh \<and> Source a = ''k8s_pod_metrics''"
proof (induction ms arbitrary: sent)
  case Nil
  then show ?case by simp
next
  case (Cons m ms)
  have "a \<in> set (checkPodMetrics_body thr fmt ids now m sent)
     \<or> (alert_type a = Some AlertTypePodCPUHigh \<or> alert_type a = Some AlertTypePodMemoryHigh)
        \<and> Severity a = SeverityHigh \<and> Source a = ''k8s_pod_metrics''"
    using Cons.IH [of "checkPodMetrics_body thr fmt ids now m sent"] Cons.prems by simp
  then show ?case
    by (auto simp: checkPodMetrics_body_eq BuildPodMetricAlert_Severity split: if_splits)
qed

text \<open>
  C8. For every pod metrics snapshot, the loop body of \<open>checkPodMetrics\<close> hands to the
  state manager exactly one \<open>pod_cpu_high\<close> alert when the CPU request is positive and
  the CPU usage percentage is strictly above the threshold \<open>PodCPUPercent\<close>, and none
  otherwise; the same for \<open>pod_memory_high\<close> with the memory request, the memory usage
  percentage and \<open>PodMemoryPercent\<close>. The value of each alert is the observed
  percentage, its severity is high and its source \<open>k8s_pod_metrics\<close>. A snapshot whose
  CPU request and memory request are both zero yields no alert at all.

  The loop of \<open>checkPodMetrics\<close> runs that body over the snapshots in order, each
  time on the alerts sent so far. \<open>checkPodMetrics\<close> returns the error of the metrics
  API and sends nothing when the API fails. Otherwise it returns no error, and what it
  sends is what the loop sends from nothing: the \<open>pod_cpu_high\<close> alerts are, in order,
  those of the snapshots with a positive CPU request and a CPU usage percentage
  strictly above \<open>PodCPUPercent\<close>, each with that snapshot's namespace, pod name and
  percentage; the same for \<open>pod_memory_high\<close>; and there is no alert of another type.
  The thresholds \<open>PodCPUPercent\<close> and \<open>PodMemoryPercent\<close> are, as \<open>Load\<close> computes
  them, the configured \<open>PodCPUThreshold\<close> and \<open>PodMemoryThreshold\<close> converted to
  \<open>float64\<close>.
\<close>

theorem C8_pod_metric_alerts:
  "(\<exists>extra. checkPodMetrics_body thr fmt ids now m sent = sent @ extra
      \<and> length (filter (\<lambda>a. alert_type a = Some AlertTypePodCPUHigh) extra)
          = (if 0 < sint (pm_CPURequestMillis m) \<and> PodCPUPercent thr < pm_CPUUsagePercent m
             then 1 else 0)
      \<and> length (filter (\<lambda>a. alert_type a = Some AlertTypePodMemoryHigh) extra)
          = (if 0 < sint (pm_MemoryRequestBytes m) \<and> PodMemoryPercent thr < pm_MemoryUsagePercent m
             then 1 else 0)
      \<and> (\<forall>a \<in> set extra.
            (alert_type a = Some AlertTypePodCPUHigh \<and> Value a = pm_CPUUsagePercent m
             \<or> alert_type a = Some AlertTypePodMemoryHigh \<and> Value a = pm_MemoryUsagePercent m)
            \<and> Severity a = SeverityHigh \<and> Source a = ''k8s_pod_metrics'')
      \<and> (pm_CPURequestMillis m = 0 \<and> pm_MemoryRequestBytes m = 0 \<longrightarrow> extra = []))
   \<and> checkPodMetrics_loop thr fmt ids now ms sent
       = foldl (\<lambda>sent m. checkPodMetrics_body thr fmt ids now m sent) sent ms
   \<and> checkPodMetrics thr fmt ids now (Inl err) = (Some err, [])
   \<and> (\<exists>alerts. checkPodMetrics thr fmt ids now (Inr ms) = (None, alerts)
        \<and> alerts = checkPodMetrics_loop thr fmt ids now ms []
        \<and> map (\<lambda>a. (Labels a ''namespace'', Labels a ''pod'', Value a))
              (filter (\<lambda>a. alert_type a = Some AlertTypePodCPUHigh) alerts)
            = map (\<lambda>m. (Some (pm_Namespace m), Some (pm_PodName m), pm_CPUUsagePercent m))
                (filter (\<lambda>m. 0 < sint (pm_CPURequestMillis m)
                              \<and> PodCPUPercent thr < pm_CPUUsagePercent m) ms)
        \<and> map (\<lambda>a. (Labels a ''namespace'', Labels a ''pod'', Value a))
              (filter (\<lambda>a. alert_type a = Some AlertTypePodMemoryHigh) alerts)
            = map (\<lambda>m. (Some (pm_Namespace m), Some (pm_PodName m), pm_MemoryUsagePercent m))
                (filter (\<lambda>m. 0 < sint (pm_MemoryRequestBytes m)
                              \<and> PodMemoryPercent thr < pm_MemoryUsagePercent m) ms)
        \<and> (\<forall>a \<in> set alerts.
              (alert_type a = Some AlertTypePodCPUHigh
               \<or> alert_type a = Some AlertTypePodMemoryHigh)
              \<and> Severity a = SeverityHigh \<and> Source a = ''k8s_pod_metrics''))
   \<and> PodCPUPercent (Load_AlertRules rules) = float_of_int64 (PodCPUThreshold rules)
   \<and> PodMemoryPercent (Load_AlertRules rules) = float_of_int64 (PodMemoryThreshold rules)"
proof -
  have load: "PodCPUPercent (Load_AlertRules rules) = float_of_int64 (PodCPUThreshold rules)"
    "PodMemoryPercent (Load_AlertRules rules) = float_of_int64 (PodMemoryThreshold rules)"
    by (simp_all add: Load_AlertRules_def)
  have body: "\<exists>extra. checkPodMetrics_body thr fmt ids now m sent = sent @ extra
      \<and> length (filter (\<lambda>a. alert_type a = Some AlertTypePodCPUHigh) extra)
          = (if 0 < sint (pm_CPURequestMillis m) \<and> PodCPUPercent thr < pm_CPUUsagePercent m
             then 1 else 0)
      \<and> length (filter (\<lambda>a. alert_type a = Some AlertTypePodMemoryHigh) extra)
          = (if 0 < sint (pm_MemoryRequestBytes m) \<and> PodMemoryPercent thr < pm_MemoryUsagePercent m
             then 1 else 0)
      \<and> (\<forall>a \<in> set extra.
            (alert_type a = Some AlertTypePodCPUHigh \<and> Value a = pm_CPUUsagePercent m
             \<or> alert_type a = Some AlertTypePodMemoryHigh \<and> Value a = pm_MemoryUsagePercent m)
            \<and> Severity a = SeverityHigh \<and> Source a = ''k8s_pod_metrics'')
      \<and> (pm_CPURequestMillis m = 0 \<and> pm_MemoryRequestBytes m = 0 \<longrightarrow> extra = [])"
    by (auto simp: checkPodMetrics_body_eq BuildPodMetricAlert_Severity AlertType_defs)
  have failed: "checkPodMetrics thr fmt ids now (Inl err) = (Some err, [])"
    by (simp add: checkPodMetrics_def)
  have answered: "checkPodMetrics thr fmt ids now (Inr ms)
                    = (None, checkPodMetrics_loop thr fmt ids now ms [])"
    by (simp add: checkPodMetrics_def)
  have cpu: "map (\<lambda>a. (Labels a ''namespace'', Labels a ''pod'', Value a))
              (filter (\<lambda>a. alert_type a = Some AlertTypePodCPUHigh)
                 (checkPodMetrics_loop thr fmt ids now ms []))
            = map (\<lambda>m. (Some (pm_Namespace m), Some (pm_PodName m), pm_CPUUsagePercent m))
                (filter (\<lambda>m. 0 < sint (pm_CPURequestMillis m)
                              \<and> PodCPUPercent thr < pm_CPUUsagePercent m) ms)"
    using checkPodMetrics_loop_cpu [of thr fmt ids now ms "[]"] by simp
  have mem: "map (\<lambda>a. (Labels a ''namespace'', Labels a ''pod'', Value a))
              (filter (\<lambda>a. alert_type a = Some AlertTypePodMemoryHigh)
                 (checkPodMetrics_loop thr fmt ids now ms []))
            = map (\<lambda>m. (Some (pm_Namespace m), Some (pm_PodName m), pm_MemoryUsagePercent m))
                (filter (\<lambda>m. 0 < sint (pm_MemoryRequestBytes m)
                              \<and> PodMemoryPercent thr < pm_MemoryUsagePercent m) ms)"
    using checkPodMetrics_loop_memory [of thr fmt ids now ms "[]"] by simp
  have all: "\<forall>a \<in> set (checkPodMetrics_loop thr fmt ids now ms []).
              (alert_type a = Some AlertTypePodCPUHigh
               \<or> alert_type a = Some AlertTypePodMemoryHigh)
              \<and> Severity a = SeverityHigh \<and> Source a = ''k8s_pod_metrics''"
    using checkPodMetrics_loop_set [of _ thr fmt ids now ms "[]"] by auto
  from body checkPodMetrics_loop_foldl [of thr fmt ids now ms sent] failed answered cpu mem all
    load
  show ?thesis by blast
qed

theorem C8_pod_metric_alerts_witness:
  "checkPodMetrics_body example_rules example_fmt example_ids 1000
     (GetPodMetrics ''a'' ''b'' [(450, 100)] [(500, 0)]) []
     = [BuildPodMetricAlert example_fmt 0 1000 ''a'' ''b'' AlertTypePodCPUHigh 90 80]
   \<and> Severity (BuildPodMetricAlert example_fmt 0 1000 ''a'' ''b'' AlertTypePodCPUHigh 90 80)
     = ''high''
   \<and> checkPodMetrics_body example_rules example_fmt example_ids 1000
       (GetPodMetrics ''a'' ''b'' [(450, 100)] [(0, 0)]) []
     = []
   \<and> checkPodMetrics example_rules example_fmt example_ids 1000
       (Inr [GetPodMetrics ''a'' ''b'' [(450, 100)] [(0, 0)],
             GetPodMetrics ''a'' ''b'' [(450, 100)] [(500, 0)]])
     = (None, [BuildPodMetricAlert example_fmt 0 1000 ''a'' ''b'' AlertTypePodCPUHigh 90 80])
   \<and> checkPodMetrics example_rules example_fmt example_ids 1000
       (Inl (Errorf ''failed to list pod metrics''))
     = (Some (Errorf ''failed to list pod metrics''), [])
   \<and> PodCPUPercent (Load_AlertRules example_rules) = 80"
proof -
  let ?m1 = "GetPodMetrics ''a'' ''b'' [(450, 100)] [(500, 0)]"
  let ?m2 = "GetPodMetrics ''a'' ''b'' [(450, 100)] [(0, 0)]"
  let ?B = "BuildPodMetricAlert example_fmt 0 1000 ''a'' ''b'' AlertTypePodCPUHigh 90 80"
  let ?err = "Errorf ''failed to list pod metrics''"
  note c8 = C8_pod_metric_alerts [of example_rules example_fmt example_ids 1000 _ _ _ _
      example_rules]
  have m2: "pm_CPURequestMillis ?m2 = 0 \<and> pm_MemoryRequestBytes ?m2 = 0"
    by (simp add: GetPodMetrics_def)
  have b1: "checkPodMetrics_body example_rules example_fmt example_ids 1000 ?m1 [] = [?B]"
    by (simp add: GetPodMetrics_S4 checkPodMetrics_body_eq example_rules_def example_ids_def)
  obtain e1 where e1: "checkPodMetrics_body example_rules example_fmt example_ids 1000 ?m1 []
                         = [] @ e1"
    and c1: "\<forall>a \<in> set e1. Severity a = SeverityHigh"
    using c8 [of ?m1 "[]"] by blast
  have "e1 = [?B]" using e1 b1 by simp
  then have s1: "Severity ?B = ''high''" using c1 by (simp add: SeverityHigh_def)
  obtain e2 where e2: "checkPodMetrics_body example_rules example_fmt example_ids 1000 ?m2 []
                         = [] @ e2"
    and c2: "pm_CPURequestMillis ?m2 = 0 \<and> pm_MemoryRequestBytes ?m2 = 0 \<longrightarrow> e2 = []"
    using c8 [of ?m2 "[]"] by blast
  have "e2 = []" using c2 m2 by blast
  then have b2: "checkPodMetrics_body example_rules example_fmt example_ids 1000 ?m2 [] = []"
    using e2 by simp
  have l: "checkPodMetrics_loop example_rules example_fmt example_ids 1000 [?m2, ?m1] [] = [?B]"
    using c8 [of ?m1 "[]" "[?m2, ?m1]"] b1 b2 by simp
  have f: "checkPodMetrics example_rules example_fmt example_ids 1000 (Inr [?m2, ?m1])
             = (None, [?B])"
    using c8 [of ?m1 "[]" "[?m2, ?m1]"] l by auto
  have g: "checkPodMetrics example_rules example_fmt example_ids 1000 (Inl ?err)
             = (Some ?err, [])"
    using c8 [of ?m1 "[]" "[]" ?err] by blast
  have "PodCPUPercent (Load_AlertRules example_rules)
          = float_of_int64 (PodCPUThreshold example_rules)"
    using c8 [of ?m1 "[]" "[]" ?err] by blast
  then have p: "PodCPUPercent (Load_AlertRules example_rules) = 80"
    by (simp add: example_rules_def float_of_int64_exact)
  show ?thesis using b1 s1 b2 f g p by simp
qed

lemma body_fst [simp]:
  "fst (evaluatePodConditions_body ids now pod cs st) = fst st + cs_RestartCount cs"
  by (simp add: evaluatePodConditions_body_def Let_def)

lemma body_snd:
  "\<exists>extra. snd (evaluatePodConditions_body ids now pod cs st) = snd st @ extra
      \<and> (\<forall>a \<in> set extra. alert_type a \<in> container_types
             \<and> Severity a = spec_severity (the (alert_type a)))"
  by (simp add: evaluatePodConditions_body_def Let_def container_types_def
      BuildPodAlert_Severity spec_severity_def AlertType_defs Severity_defs)

lemma loop_fst:
  "fst (evaluatePodConditions_loop ids now pod css st) = fst st + sum_list (map cs_RestartCount css)"
  by (induction css arbitrary: st) (simp_all add: add.assoc)

lemma loop_snd:
  "\<exists>extra. snd (evaluatePodConditions_loop ids now pod css st) = snd st @ extra
      \<and> (\<forall>a \<in> set extra. alert_type a \<in> container_types
             \<and> Severity a = spec_severity (the (alert_type a)))"
proof (induction css arbitrary: st)
  case Nil
  then show ?case by simp
next
  case (Cons cs css)
  obtain e1 where e1: "snd (evaluatePodConditions_body ids now pod cs st) = snd st @ e1"
    "\<forall>a \<in> set e1. alert_type a \<in> container_types \<and> Severity a = spec_severity (the (alert_type a))"
    using body_snd by blast
  obtain e2 where e2: "snd (evaluatePodConditions_loop ids now pod css
                              (evaluatePodConditions_body ids now pod cs st))
                        = snd (evaluatePodConditions_body ids now pod cs st) @ e2"
    "\<forall>a \<in> set e2. alert_type a \<in> container_types \<and> Severity a = spec_severity (the (alert_type a))"
    using Cons.IH by blast
  have "snd (evaluatePodConditions_loop ids now pod (cs # css) st) = snd st @ (e1 @ e2)"
    using e1(1) e2(1) by simp
  moreover have "\<forall>a \<in> set (e1 @ e2). alert_type a \<in> container_types
                   \<and> Severity a = spec_severity (the (alert_type a))"
    using e1(2) e2(2) by auto
  ultimately show ?case by blast
qed

lemma early_props:
  "\<forall>a \<in> set (evaluatePodConditions_early ids now pod).
      alert_type a \<in> early_types \<and> Severity a = spec_severity (the (alert_type a))"
proof -
  let ?init = "(if pod_Phase pod = PodFailed
                then [BuildPodAlert (ids 0) now pod AlertTypePodFailed 1]
                else if pod_Phase pod = PodUnknown
                then [BuildPodAlert (ids 0) now pod AlertTypePodUnknown 1]
                else [])"
  have i: "\<forall>a \<in> set ?init. alert_type a \<in> early_types
              \<and> Severity a = spec_severity (the (alert_type a))"
    by (simp add: early_types_def BuildPodAlert_Severity spec_severity_def AlertType_defs
        Severity_defs)
  obtain extra where e:
    "snd (evaluatePodConditions_loop ids now pod (pod_ContainerStatuses pod) (0, ?init)) = ?init @ extra"
    "\<forall>a \<in> set extra. alert_type a \<in> container_types
        \<and> Severity a = spec_severity (the (alert_type a))"
    using loop_snd [of ids now pod "pod_ContainerStatuses pod" "(0, ?init)"] by auto
  have "container_types \<subseteq> early_types"
    by (auto simp: container_types_def early_types_def)
  with e i show ?thesis unfolding evaluatePodConditions_early_def by auto
qed

lemma evaluatePodConditions_eq:
  "evaluatePodConditions pw ids now pod =
     evaluatePodConditions_early ids now pod
     @ (if sint (restartThreshold pw) < sint (totalRestarts_of pod)
        then [BuildPodAlert (ids (length (evaluatePodConditions_early ids now pod))) now pod
                AlertTypePodRestartThreshold (float_of_int32 (totalRestarts_of pod))]
        else [])
     @ (if pod_Phase pod = PodPending
           \<and> pendingTimeout pw < time_Since now (pod_CreationTimestamp pod)
        then [BuildPodAlert
                (ids (length (evaluatePodConditions_early ids now pod)
                      + (if sint (restartThreshold pw) < sint (totalRestarts_of pod) then 1 else 0)))
                now pod AlertTypePodPending 1]
        else [])"
  by (simp add: evaluatePodConditions_def Let_def loop_fst evaluatePodConditions_early_def
      totalRestarts_of_def PodFailed_def PodUnknown_def PodPending_def)

lemma early_not_late:
  assumes "a \<in> set (evaluatePodConditions_early ids now pod)"
  shows "alert_type a \<noteq> Some AlertTypePodPending \<and> alert_type a \<noteq> Some AlertTypePodRestartThreshold"
  using early_props assms by (fastforce simp: early_types_def AlertType_defs)

lemma filter_early_pending [simp]:
  "filter (\<lambda>a. alert_type a = Some AlertTypePodPending) (evaluatePodConditions_early ids now pod) = []"
  using early_not_late by (auto simp: filter_empty_conv)

lemma filter_early_restart [simp]:
  "filter (\<lambda>a. alert_type a = Some AlertTypePodRestartThreshold)
     (evaluatePodConditions_early ids now pod) = []"
  using early_not_late by (auto simp: filter_empty_conv)

lemma pendingTimeout_New [simp]: "pendingTimeout (NewPodWatcher cfg) = 300000000000"
  by (simp add: NewPodWatcher_def Minute_def Second_def)

text \<open>
  C5, as amended. For every pod whose phase is Pending, evaluating its conditions emits
  exactly one \<open>pod_pending\<close> alert (severity medium, value 1.0, source \<open>k8s_pod\<close>) when
  the time since the pod's creation is strictly more than 5 minutes (the watcher's
  \<open>pendingTimeout\<close>, fixed at 5 minutes when the watcher is made), and no \<open>pod_pending\<close>
  alert otherwise. A pod pending 299 seconds yields none, one pending 301 seconds
  yields exactly one.
\<close>

theorem C5_pod_pending:
  assumes "pod_Phase pod = PodPending"
  shows "length (filter (\<lambda>a. alert_type a = Some AlertTypePodPending)
                   (evaluatePodConditions (NewPodWatcher cfg) ids now pod))
           = (if 300000000000 < time_Since now (pod_CreationTimestamp pod) then 1 else 0)
       \<and> (\<forall>a \<in> set (evaluatePodConditions (NewPodWatcher cfg) ids now pod).
             alert_type a = Some AlertTypePodPending \<longrightarrow>
               Severity a = SeverityMedium \<and> Value a = 1 \<and> Source a = ''k8s_pod'')"
proof -
  have a: "length (filter (\<lambda>a. alert_type a = Some AlertTypePodPending)
                   (evaluatePodConditions (NewPodWatcher cfg) ids now pod))
           = (if 300000000000 < time_Since now (pod_CreationTimestamp pod) then 1 else 0)"
    using assms
    by (simp add: evaluatePodConditions_eq AlertType_defs filter_early_pending [unfolded AlertType_defs])
  have b: "\<forall>a \<in> set (evaluatePodConditions (NewPodWatcher cfg) ids now pod).
             alert_type a = Some AlertTypePodPending \<longrightarrow>
               Severity a = SeverityMedium \<and> Value a = 1 \<and> Source a = ''k8s_pod''"
    using early_not_late [of _ ids now pod]
    by (auto simp: evaluatePodConditions_eq BuildPodAlert_Severity AlertType_defs)
  from a b show ?thesis by blast
qed

theorem C5_pod_pending_witness:
  "pod_Phase pending_pod = PodPending
   \<and> length (filter (\<lambda>a. alert_type a = Some AlertTypePodPending)
               (evaluatePodConditions (NewPodWatcher example_rules) example_ids
                  299000000000 pending_pod)) = 0
   \<and> length (filter (\<lambda>a. alert_type a = Some AlertTypePodPending)
               (evaluatePodConditions (NewPodWatcher example_rules) example_ids
                  301000000000 pending_pod)) = 1"
proof -
  have h: "pod_Phase pending_pod = PodPending"
    by (simp add: pending_pod_def PodPending_def)
  have t1: "time_Since 299000000000 (pod_CreationTimestamp pending_pod) = 299000000000"
    by (simp add: time_Since_def pending_pod_def)
  have t2: "time_Since 301000000000 (pod_CreationTimestamp pending_pod) = 301000000000"
    by (simp add: time_Since_def pending_pod_def)
  show ?thesis
    using C5_pod_pending [OF h, of example_rules example_ids 299000000000]
          C5_pod_pending [OF h, of example_rules example_ids 301000000000] h t1 t2
    by simp
qed

text \<open>
  The claim as stated fails at the bound: a pod that has been pending for exactly
  5 minutes yields no alert.
\<close>

theorem C5_pod_pending_counterexample:
  "pod_Phase pending_pod = PodPending
   \<and> 5 * Minute \<le> time_Since 300000000000 (pod_CreationTimestamp pending_pod)
   \<and> evaluatePodConditions (NewPodWatcher example_rules) example_ids
        300000000000 pending_pod = []"
  by (simp add: evaluatePodConditions_def Let_def NewPodWatcher_def PodPending_def PodFailed_def
      PodUnknown_def Minute_def Second_def time_Since_def pending_pod_def example_rules_def)

lemma highest_loop:
  "(\<forall>x \<in> set css. sint (cs_RestartCount x) \<le> sint m)
     \<longrightarrow> getHighestRestartContainer_loop css (m, n) = (m, n)"
  "(\<exists>x \<in> set css. sint m < sint (cs_RestartCount x))
     \<longrightarrow> (\<exists>pre c post. css = pre @ c # post
            \<and> (\<forall>y \<in> set pre. sint (cs_RestartCount y) < sint (cs_RestartCount c))
            \<and> (\<forall>y \<in> set post. sint (cs_RestartCount y) \<le> sint (cs_RestartCount c))
            \<and> sint m < sint (cs_RestartCount c)
            \<and> getHighestRestartContainer_loop css (m, n) = (cs_RestartCount c, cs_Name c))"
proof (induction css arbitrary: m n)
  case Nil
  { case 1 show ?case by simp }
  { case 2 show ?case by simp }
next
  case (Cons cs css)
  { case 1
    show ?case using Cons.IH(1) [of m n] by auto }
  { case 2
    show ?case
    proof
      assume ex: "\<exists>x \<in> set (cs # css). sint m < sint (cs_RestartCount x)"
      show "\<exists>pre c post. cs # css = pre @ c # post
            \<and> (\<forall>y \<in> set pre. sint (cs_RestartCount y) < sint (cs_RestartCount c))
            \<and> (\<forall>y \<in> set post. sint (cs_RestartCount y) \<le> sint (cs_RestartCount c))
            \<and> sint m < sint (cs_RestartCount c)
            \<and> getHighestRestartContainer_loop (cs # css) (m, n) = (cs_RestartCount c, cs_Name c)"
      proof (cases "sint m < sint (cs_RestartCount cs)")
        case True
        show ?thesis
        proof (cases "\<exists>x \<in> set css. sint (cs_RestartCount cs) < sint (cs_RestartCount x)")
          case False
          then have "getHighestRestartContainer_loop css (cs_RestartCount cs, cs_Name cs)
                       = (cs_RestartCount cs, cs_Name cs)"
            using Cons.IH(1) [of "cs_RestartCount cs" "cs_Name cs"] by auto
          with True False have
            "cs # css = [] @ cs # css
             \<and> (\<forall>y \<in> set []. sint (cs_RestartCount y) < sint (cs_RestartCount cs))
             \<and> (\<forall>y \<in> set css. sint (cs_RestartCount y) \<le> sint (cs_RestartCount cs))
             \<and> sint m < sint (cs_RestartCount cs)
             \<and> getHighestRestartContainer_loop (cs # css) (m, n) = (cs_RestartCount cs, cs_Name cs)"
            by auto
          then show ?thesis by blast
        next
          case ex2: True
          then obtain pre c post where p: "css = pre @ c # post"
            "\<forall>y \<in> set pre. sint (cs_RestartCount y) < sint (cs_RestartCount c)"
            "\<forall>y \<in> set post. sint (cs_RestartCount y) \<le> sint (cs_RestartCount c)"
            "sint (cs_RestartCount cs) < sint (cs_RestartCount c)"
            "getHighestRestartContainer_loop css (cs_RestartCount cs, cs_Name cs)
               = (cs_RestartCount c, cs_Name c)"
            using Cons.IH(2) [of "cs_RestartCount cs" "cs_Name cs"] by blast
          with True have
            "cs # css = (cs # pre) @ c # post
             \<and> (\<forall>y \<in> set (cs # pre). sint (cs_RestartCount y) < sint (cs_RestartCount c))
             \<and> (\<forall>y \<in> set post. sint (cs_RestartCount y) \<le> sint (cs_RestartCount c))
             \<and> sint m < sint (cs_RestartCount c)
             \<and> getHighestRestartContainer_loop (cs # css) (m, n) = (cs_RestartCount c, cs_Name c)"
            by auto
          then show ?thesis by blast
        qed
      next
        case False
        with ex have "\<exists>x \<in> set css. sint m < sint (cs_RestartCount x)" by auto
        then obtain pre c post where p: "css = pre @ c # post"
            "\<forall>y \<in> set pre. sint (cs_RestartCount y) < sint (cs_RestartCount c)"
            "\<forall>y \<in> set post. sint (cs_RestartCount y) \<le> sint (cs_RestartCount c)"
            "sint m < sint (cs_RestartCount c)"
            "getHighestRestartContainer_loop css (m, n) = (cs_RestartCount c, cs_Name c)"
          using Cons.IH(2) [of m n] by blast
        with False have
            "cs # css = (cs # pre) @ c # post
             \<and> (\<forall>y \<in> set (cs # pre). sint (cs_RestartCount y) < sint (cs_RestartCount c))
             \<and> (\<forall>y \<in> set post. sint (cs_RestartCount y) \<le> sint (cs_RestartCount c))
             \<and> sint m < sint (cs_RestartCount c)
             \<and> getHighestRestartContainer_loop (cs # css) (m, n) = (cs_RestartCount c, cs_Name c)"
          by auto
        then show ?thesis by blast
      qed
    qed }
qed

lemma restart_label:
  "Labels (BuildPodAlert uid now pod AlertTypePodRestartThreshold v) ''container''
     = Some (getHighestRestartContainer pod)"
  by (simp add: BuildPodAlert_def NewAlert_def Let_def AlertType_defs split: prod.splits)

lemma sint_sum_no_overflow:
  fixes xs :: "int32 list"
  assumes "\<forall>x \<in> set xs. 0 \<le> sint x" and "sum_list (map sint xs) < 2 ^ 31"
  shows "sint (sum_list xs) = sum_list (map sint xs)"
  using assms
proof (induction xs)
  case Nil
  then show ?case by simp
next
  case (Cons x xs)
  have nn: "0 \<le> sum_list (map sint xs)"
    using Cons.prems(1) by (intro sum_list_nonneg) auto
  have x0: "0 \<le> sint x" using Cons.prems(1) by simp
  have "sum_list (map sint xs) < 2 ^ 31" using Cons.prems(2) x0 by simp
  then have ih: "sint (sum_list xs) = sum_list (map sint xs)"
    using Cons.IH Cons.prems(1) by simp
  have "- (2 ^ 31) \<le> sint x + sint (sum_list xs)" "sint x + sint (sum_list xs) < 2 ^ 31"
    using nn x0 ih Cons.prems(2) by simp_all
  then have "sint (x + sum_list xs) = sint x + sint (sum_list xs)"
    by (simp add: sint_word_ariths signed_take_bit_int_eq_self)
  then show ?case using ih by simp
qed

lemma sum_list_all_zero:
  fixes xs :: "int32 list"
  shows "\<forall>x \<in> set xs. x = 0 \<Longrightarrow> sum_list xs = 0"
  by (induction xs) simp_all

lemma sint_ucast_in_range:
  fixes w :: go_int
  assumes "- (2 ^ 31) \<le> sint w" "sint w < 2 ^ 31"
  shows "sint (ucast w :: int32) = sint w"
proof -
  have "(ucast w :: int32) = scast w"
    by (rule bit_word_eqI) (simp add: bit_ucast_iff bit_signed_iff)
  also have "\<dots> = word_of_int (sint w)" by simp
  finally have "sint (ucast w :: int32) = signed_take_bit 31 (sint w)"
    by (simp only: sint_sbintrunc') simp
  then show ?thesis
    using assms by (simp add: signed_take_bit_int_eq_self)
qed

text \<open>
  C7, as amended. For every pod, evaluating its conditions emits exactly one
  \<open>pod_restart_threshold\<close> alert when the sum of its containers' restart counts, added
  in 32 bits as the code adds them, is strictly greater than the watcher's threshold,
  and none otherwise. The watcher's threshold is \<open>int32(T_r)\<close>: \<open>NewPodWatcher\<close>
  converts the configured \<open>PodRestartThreshold\<close> to 32 bits, which leaves it as it is
  when it fits in 32 bits. The alert's value is the total, its severity is high and
  its \<open>container\<close> label is the result of \<open>getHighestRestartContainer\<close>: when some
  container has a positive restart count, the name of the first container in
  iteration order whose restart count is the highest (every earlier container has a
  strictly smaller count, every later one a count that is not greater); when no
  container has a positive restart count, "unknown". When every restart count is
  zero, the alert is emitted only if the watcher's threshold is negative. For restart
  counts that are not negative and whose sum is below \<open>2 ^ 31\<close>, the 32-bit total is
  the sum.
\<close>

theorem C7_restart_threshold:
  "length (filter (\<lambda>a. alert_type a = Some AlertTypePodRestartThreshold)
             (evaluatePodConditions pw ids now pod))
     = (if sint (restartThreshold pw) < sint (totalRestarts_of pod) then 1 else 0)
   \<and> (\<forall>a \<in> set (evaluatePodConditions pw ids now pod).
         alert_type a = Some AlertTypePodRestartThreshold \<longrightarrow>
           Value a = real_of_int (sint (totalRestarts_of pod))
           \<and> Severity a = SeverityHigh
           \<and> Labels a ''container'' = Some (getHighestRestartContainer pod))
   \<and> ((\<forall>c \<in> set (pod_ContainerStatuses pod). sint (cs_RestartCount c) \<le> 0) \<longrightarrow>
         getHighestRestartContainer pod = ''unknown'')
   \<and> ((\<exists>c \<in> set (pod_ContainerStatuses pod). 0 < sint (cs_RestartCount c)) \<longrightarrow>
         (\<exists>pre c post. pod_ContainerStatuses pod = pre @ c # post
            \<and> (\<forall>y \<in> set pre. sint (cs_RestartCount y) < sint (cs_RestartCount c))
            \<and> (\<forall>y \<in> set post. sint (cs_RestartCount y) \<le> sint (cs_RestartCount c))
            \<and> getHighestRestartContainer pod = cs_Name c))
   \<and> ((\<forall>c \<in> set (pod_ContainerStatuses pod). 0 \<le> sint (cs_RestartCount c))
        \<and> sum_list (map (\<lambda>c. sint (cs_RestartCount c)) (pod_ContainerStatuses pod)) < 2 ^ 31 \<longrightarrow>
         sint (totalRestarts_of pod)
           = sum_list (map (\<lambda>c. sint (cs_RestartCount c)) (pod_ContainerStatuses pod)))
   \<and> restartThreshold (NewPodWatcher cfg) = ucast (PodRestartThreshold cfg)
   \<and> (- (2 ^ 31) \<le> sint (PodRestartThreshold cfg) \<and> sint (PodRestartThreshold cfg) < 2 ^ 31 \<longrightarrow>
         sint (restartThreshold (NewPodWatcher cfg)) = sint (PodRestartThreshold cfg))
   \<and> ((\<forall>c \<in> set (pod_ContainerStatuses pod). cs_RestartCount c = 0)
        \<and> sint (restartThreshold pw) < sint (totalRestarts_of pod) \<longrightarrow>
         sint (restartThreshold pw) < 0)"
proof -
  let ?css = "pod_ContainerStatuses pod"
  have a: "length (filter (\<lambda>a. alert_type a = Some AlertTypePodRestartThreshold)
             (evaluatePodConditions pw ids now pod))
     = (if sint (restartThreshold pw) < sint (totalRestarts_of pod) then 1 else 0)"
    by (simp add: evaluatePodConditions_eq AlertType_defs
        filter_early_restart [unfolded AlertType_defs])
  have b: "\<forall>a \<in> set (evaluatePodConditions pw ids now pod).
         alert_type a = Some AlertTypePodRestartThreshold \<longrightarrow>
           Value a = real_of_int (sint (totalRestarts_of pod))
           \<and> Severity a = SeverityHigh
           \<and> Labels a ''container'' = Some (getHighestRestartContainer pod)"
    using early_not_late [of _ ids now pod, unfolded AlertType_defs]
    by (auto simp: evaluatePodConditions_eq BuildPodAlert_Severity [unfolded AlertType_defs]
        restart_label [unfolded AlertType_defs] float_of_int32_def AlertType_defs)
  have c: "(\<forall>c \<in> set ?css. sint (cs_RestartCount c) \<le> 0) \<longrightarrow>
         getHighestRestartContainer pod = ''unknown''"
    using highest_loop(1) [of ?css 0 "''unknown''"]
    by (simp add: getHighestRestartContainer_def)
  have d: "(\<exists>c \<in> set ?css. 0 < sint (cs_RestartCount c)) \<longrightarrow>
         (\<exists>pre c post. ?css = pre @ c # post
            \<and> (\<forall>y \<in> set pre. sint (cs_RestartCount y) < sint (cs_RestartCount c))
            \<and> (\<forall>y \<in> set post. sint (cs_RestartCount y) \<le> sint (cs_RestartCount c))
            \<and> getHighestRestartContainer pod = cs_Name c)"
  proof
    assume "\<exists>c \<in> set ?css. 0 < sint (cs_RestartCount c)"
    then have "\<exists>c \<in> set ?css. sint (0 :: int32) < sint (cs_RestartCount c)" by simp
    then obtain pre c post where "?css = pre @ c # post"
      "\<forall>y \<in> set pre. sint (cs_RestartCount y) < sint (cs_RestartCount c)"
      "\<forall>y \<in> set post. sint (cs_RestartCount y) \<le> sint (cs_RestartCount c)"
      "getHighestRestartContainer_loop ?css (0, ''unknown'') = (cs_RestartCount c, cs_Name c)"
      using highest_loop(2) [of ?css 0 "''unknown''"] by blast
    then show "\<exists>pre c post. ?css = pre @ c # post
            \<and> (\<forall>y \<in> set pre. sint (cs_RestartCount y) < sint (cs_RestartCount c))
            \<and> (\<forall>y \<in> set post. sint (cs_RestartCount y) \<le> sint (cs_RestartCount c))
            \<and> getHighestRestartContainer pod = cs_Name c"
      unfolding getHighestRestartContainer_def by (metis snd_conv)
  qed
  have e: "(\<forall>c \<in> set ?css. 0 \<le> sint (cs_RestartCount c))
        \<and> sum_list (map (\<lambda>c. sint (cs_RestartCount c)) ?css) < 2 ^ 31 \<longrightarrow>
         sint (totalRestarts_of pod) = sum_list (map (\<lambda>c. sint (cs_RestartCount c)) ?css)"
    using sint_sum_no_overflow [of "map cs_RestartCount ?css"]
    by (simp add: totalRestarts_of_def comp_def)
  have f: "restartThreshold (NewPodWatcher cfg) = ucast (PodRestartThreshold cfg)"
    by (simp add: NewPodWatcher_def)
  have g: "- (2 ^ 31) \<le> sint (PodRestartThreshold cfg) \<and> sint (PodRestartThreshold cfg) < 2 ^ 31 \<longrightarrow>
         sint (restartThreshold (NewPodWatcher cfg)) = sint (PodRestartThreshold cfg)"
    using sint_ucast_in_range [of "PodRestartThreshold cfg"] by (simp add: NewPodWatcher_def)
  have h: "(\<forall>c \<in> set ?css. cs_RestartCount c = 0)
        \<and> sint (restartThreshold pw) < sint (totalRestarts_of pod) \<longrightarrow>
         sint (restartThreshold pw) < 0"
    using sum_list_all_zero [of "map cs_RestartCount ?css"]
    by (auto simp: totalRestarts_of_def)
  from a b c d e f g h show ?thesis by blast
qed

theorem C7_restart_threshold_witness:
  "(\<exists>c \<in> set (pod_ContainerStatuses restarting_pod). 0 < sint (cs_RestartCount c))
   \<and> sint (restartThreshold (NewPodWatcher example_rules)) = 5
   \<and> sint (totalRestarts_of restarting_pod) = 16
   \<and> length (filter (\<lambda>a. alert_type a = Some AlertTypePodRestartThreshold)
               (evaluatePodConditions (NewPodWatcher example_rules) example_ids
                  1000 restarting_pod)) = 1
   \<and> getHighestRestartContainer restarting_pod = ''app''
   \<and> sint (PodRestartThreshold negative_rules) = - 1
   \<and> sint (restartThreshold (NewPodWatcher negative_rules)) = - 1
   \<and> map cs_RestartCount (pod_ContainerStatuses idle_pod) = [0, 0]
   \<and> sint (restartThreshold (NewPodWatcher negative_rules)) < sint (totalRestarts_of idle_pod)"
proof -
  note c7 = C7_restart_threshold [of "NewPodWatcher example_rules" example_ids 1000
      restarting_pod negative_rules]
  have n: "sint (PodRestartThreshold negative_rules) = - 1"
    by (simp add: negative_rules_def)
  have "- (2 ^ 31) \<le> sint (PodRestartThreshold negative_rules)
        \<and> sint (PodRestartThreshold negative_rules) < 2 ^ 31"
    by (simp add: n)
  then have "sint (restartThreshold (NewPodWatcher negative_rules))
               = sint (PodRestartThreshold negative_rules)"
    using c7 by blast
  then have n': "sint (restartThreshold (NewPodWatcher negative_rules)) = - 1"
    using n by simp
  have z: "map cs_RestartCount (pod_ContainerStatuses idle_pod) = [0, 0]"
          "sint (totalRestarts_of idle_pod) = 0"
    by (simp_all add: idle_pod_def totalRestarts_of_def)
  have h1: "\<exists>c \<in> set (pod_ContainerStatuses restarting_pod). 0 < sint (cs_RestartCount c)"
    by (simp add: restarting_pod_def)
  have h2: "(\<forall>c \<in> set (pod_ContainerStatuses restarting_pod). 0 \<le> sint (cs_RestartCount c))
        \<and> sum_list (map (\<lambda>c. sint (cs_RestartCount c)) (pod_ContainerStatuses restarting_pod))
            < 2 ^ 31"
    by (simp add: restarting_pod_def)
  have s: "sum_list (map (\<lambda>c. sint (cs_RestartCount c)) (pod_ContainerStatuses restarting_pod))
             = 16"
    by (simp add: restarting_pod_def)
  have t: "sint (restartThreshold (NewPodWatcher example_rules)) = 5"
    by (simp add: NewPodWatcher_def example_rules_def)
  have g: "getHighestRestartContainer restarting_pod = ''app''"
    by (simp add: getHighestRestartContainer_def restarting_pod_def)
  show ?thesis
    using c7 h1 h2 s t g n n' z by simp
qed

text \<open>
  The claim as stated fails for a negative threshold: with the threshold -1, a pod
  whose two containers never restarted gets a \<open>pod_restart_threshold\<close> alert whose
  \<open>container\<close> label is "unknown", which names neither container.
\<close>

theorem C7_restart_threshold_counterexample:
  "sint (restartThreshold (NewPodWatcher negative_rules)) = - 1
   \<and> map cs_Name (pod_ContainerStatuses idle_pod) = [''app'', ''sidecar'']
   \<and> map (\<lambda>a. (alert_type a, Labels a ''container''))
        (evaluatePodConditions (NewPodWatcher negative_rules) example_ids 1000 idle_pod)
     = [(Some ''pod_restart_threshold'', Some ''unknown'')]"
proof -
  have t: "sint (restartThreshold (NewPodWatcher negative_rules)) = - 1"
  proof -
    have "(ucast (- 1 :: 64 word) :: 32 word) = - 1"
      by (rule bit_word_eqI) (simp add: bit_ucast_iff)
    then show ?thesis by (simp add: NewPodWatcher_def negative_rules_def)
  qed
  have e: "map (\<lambda>a. (alert_type a, Labels a ''container''))
        (evaluatePodConditions (NewPodWatcher negative_rules) example_ids 1000 idle_pod)
     = [(Some ''pod_restart_threshold'', Some ''unknown'')]"
    by (simp add: evaluatePodConditions_eq t evaluatePodConditions_early_def totalRestarts_of_def
        evaluatePodConditions_body_def Let_def PodFailed_def PodUnknown_def PodPending_def
        restart_label [unfolded AlertType_defs] getHighestRestartContainer_def AlertType_defs
        idle_pod_def)
  show ?thesis using t e by (simp add: idle_pod_def)
qed

lemma snoc_if_aside:
  assumes "map ids_and_times_aside al = map ids_and_times_aside al'"
    and "ids_and_times_aside b = ids_and_times_aside b'"
  shows "map ids_and_times_aside (if c then al @ [b] else al)
           = map ids_and_times_aside (if c then al' @ [b'] else al')"
  using assms by simp

lemma body_aside:
  assumes "map ids_and_times_aside (snd st) = map ids_and_times_aside (snd st')"
  shows "map ids_and_times_aside (snd (evaluatePodConditions_body ids now pod cs st))
           = map ids_and_times_aside (snd (evaluatePodConditions_body ids' now' pod cs st'))"
proof -
  let ?c1 = "cs_LastTerminated cs \<noteq> None \<and> t_Reason (the (cs_LastTerminated cs)) = ''OOMKilled''"
  let ?c2 = "cs_Waiting cs \<noteq> None \<and> w_Reason (the (cs_Waiting cs)) = ''CrashLoopBackOff''"
  let ?c3 = "cs_Waiting cs \<noteq> None
               \<and> (w_Reason (the (cs_Waiting cs)) = ''ImagePullBackOff''
                  \<or> w_Reason (the (cs_Waiting cs)) = ''ErrImagePull'')"
  let ?v = "float_of_int32 (cs_RestartCount cs)"
  define a1 where "a1 = (if ?c1 then snd st @ [BuildPodAlert (ids (length (snd st))) now pod
                                                AlertTypePodOOMKilled ?v] else snd st)"
  define a1' where "a1' = (if ?c1 then snd st' @ [BuildPodAlert (ids' (length (snd st'))) now' pod
                                                AlertTypePodOOMKilled ?v] else snd st')"
  define a2 where "a2 = (if ?c2 then a1 @ [BuildPodAlert (ids (length a1)) now pod
                                              AlertTypePodCrashLoop ?v] else a1)"
  define a2' where "a2' = (if ?c2 then a1' @ [BuildPodAlert (ids' (length a1')) now' pod
                                              AlertTypePodCrashLoop ?v] else a1')"
  define a3 where "a3 = (if ?c3 then a2 @ [BuildPodAlert (ids (length a2)) now pod
                                              AlertTypePodImagePullError 1] else a2)"
  define a3' where "a3' = (if ?c3 then a2' @ [BuildPodAlert (ids' (length a2')) now' pod
                                              AlertTypePodImagePullError 1] else a2')"
  have 1: "map ids_and_times_aside a1 = map ids_and_times_aside a1'"
    unfolding a1_def a1'_def by (rule snoc_if_aside [OF assms BuildPodAlert_aside])
  have 2: "map ids_and_times_aside a2 = map ids_and_times_aside a2'"
    unfolding a2_def a2'_def by (rule snoc_if_aside [OF 1 BuildPodAlert_aside])
  have 3: "map ids_and_times_aside a3 = map ids_and_times_aside a3'"
    unfolding a3_def a3'_def by (rule snoc_if_aside [OF 2 BuildPodAlert_aside])
  have "snd (evaluatePodConditions_body ids now pod cs st) = a3"
    by (simp add: evaluatePodConditions_body_def Let_def a3_def a2_def a1_def)
  moreover have "snd (evaluatePodConditions_body ids' now' pod cs st') = a3'"
    by (simp add: evaluatePodConditions_body_def Let_def a3'_def a2'_def a1'_def)
  ultimately show ?thesis using 3 by simp
qed

lemma loop_aside:
  assumes "map ids_and_times_aside (snd st) = map ids_and_times_aside (snd st')"
  shows "map ids_and_times_aside (snd (evaluatePodConditions_loop ids now pod css st))
           = map ids_and_times_aside (snd (evaluatePodConditions_loop ids' now' pod css st'))"
  using assms
proof (induction css arbitrary: st st')
  case Nil
  then show ?case by simp
next
  case (Cons cs css)
  show ?case using Cons.IH [OF body_aside [OF Cons.prems]] by simp
qed

lemma early_aside:
  "map ids_and_times_aside (evaluatePodConditions_early ids now pod)
     = map ids_and_times_aside (evaluatePodConditions_early ids' now' pod)"
proof -
  have "map ids_and_times_aside
          (snd (0 :: int32, if pod_Phase pod = PodFailed
                then [BuildPodAlert (ids 0) now pod AlertTypePodFailed 1]
                else if pod_Phase pod = PodUnknown
                then [BuildPodAlert (ids 0) now pod AlertTypePodUnknown 1]
                else []))
        = map ids_and_times_aside
          (snd (0 :: int32, if pod_Phase pod = PodFailed
                then [BuildPodAlert (ids' 0) now' pod AlertTypePodFailed 1]
                else if pod_Phase pod = PodUnknown
                then [BuildPodAlert (ids' 0) now' pod AlertTypePodUnknown 1]
                else []))"
    using BuildPodAlert_aside [of "ids 0" now pod _ 1 "ids' 0" now'] by simp
  then show ?thesis unfolding evaluatePodConditions_early_def by (rule loop_aside)
qed

lemma evaluatePodConditions_aside:
  assumes "pod_Phase pod = PodPending \<longrightarrow>
             (pendingTimeout pw < time_Since now (pod_CreationTimestamp pod))
               = (pendingTimeout pw < time_Since now' (pod_CreationTimestamp pod))"
  shows "map ids_and_times_aside (evaluatePodConditions pw ids now pod)
           = map ids_and_times_aside (evaluatePodConditions pw ids' now' pod)"
proof -
  have r: "ids_and_times_aside (BuildPodAlert u now pod ty v)
             = ids_and_times_aside (BuildPodAlert u' now' pod ty v)" for u u' ty v
    by (rule BuildPodAlert_aside)
  show ?thesis
    using assms early_aside [of ids now pod ids' now']
      r [of "ids (length (evaluatePodConditions_early ids now pod))"
           AlertTypePodRestartThreshold "float_of_int32 (totalRestarts_of pod)"
           "ids' (length (evaluatePodConditions_early ids' now' pod))"]
      r [of "ids (length (evaluatePodConditions_early ids now pod)
                  + (if sint (restartThreshold pw) < sint (totalRestarts_of pod) then 1 else 0))"
           AlertTypePodPending 1
           "ids' (length (evaluatePodConditions_early ids' now' pod)
                  + (if sint (restartThreshold pw) < sint (totalRestarts_of pod) then 1 else 0))"]
    by (auto simp: evaluatePodConditions_eq)
qed

lemma node_body_props:
  "\<exists>extra. evaluateNodeConditions_body ids now node c found = found @ extra
      \<and> (\<forall>a \<in> set extra. \<exists>ty. alert_type a = Some ty \<and> Severity a = spec_severity ty)"
  by (simp add: evaluateNodeConditions_body_def BuildNodeAlert_Severity spec_severity_def
      AlertType_defs Severity_defs)

lemma node_loop_props:
  "\<exists>extra. evaluateNodeConditions_loop ids now node cs found = found @ extra
      \<and> (\<forall>a \<in> set extra. \<exists>ty. alert_type a = Some ty \<and> Severity a = spec_severity ty)"
proof (induction cs arbitrary: found)
  case Nil
  then show ?case by simp
next
  case (Cons c cs)
  obtain e1 where e1: "evaluateNodeConditions_body ids now node c found = found @ e1"
    "\<forall>a \<in> set e1. \<exists>ty. alert_type a = Some ty \<and> Severity a = spec_severity ty"
    using node_body_props by blast
  obtain e2 where e2: "evaluateNodeConditions_loop ids now node cs (found @ e1) = (found @ e1) @ e2"
    "\<forall>a \<in> set e2. \<exists>ty. alert_type a = Some ty \<and> Severity a = spec_severity ty"
    using Cons.IH by blast
  have "evaluateNodeConditions_loop ids now node (c # cs) found = found @ (e1 @ e2)"
    using e1(1) e2(1) by simp
  moreover have "\<forall>a \<in> set (e1 @ e2). \<exists>ty. alert_type a = Some ty \<and> Severity a = spec_severity ty"
    using e1(2) e2(2) by auto
  ultimately show ?case by blast
qed

lemma node_body_aside:
  assumes "map ids_and_times_aside found = map ids_and_times_aside found'"
  shows "map ids_and_times_aside (evaluateNodeConditions_body ids now node c found)
           = map ids_and_times_aside (evaluateNodeConditions_body ids' now' node c found')"
proof -
  have r: "map ids_and_times_aside (found @ [BuildNodeAlert (ids (length found)) now node ty 1])
             = map ids_and_times_aside (found' @ [BuildNodeAlert (ids' (length found')) now' node ty 1])"
    for ty
    using assms BuildNodeAlert_aside [of "ids (length found)" now node ty 1 "ids' (length found')" now']
    by simp
  show ?thesis
    using assms r by (simp add: evaluateNodeConditions_body_def)
qed

lemma node_loop_aside:
  assumes "map ids_and_times_aside found = map ids_and_times_aside found'"
  shows "map ids_and_times_aside (evaluateNodeConditions_loop ids now node cs found)
           = map ids_and_times_aside (evaluateNodeConditions_loop ids' now' node cs found')"
  using assms
proof (induction cs arbitrary: found found')
  case Nil
  then show ?case by simp
next
  case (Cons c cs)
  show ?case using Cons.IH [OF node_body_aside [OF Cons.prems]] by simp
qed

lemma checkNodeMetrics_body_eq:
  "checkNodeMetrics_body thr fmt ids now m sent =
     sent
     @ (if NodeCPUPercent thr < nm_CPUUsagePercent m
        then [BuildNodeMetricAlert fmt (ids (length sent)) now (nm_NodeName m)
                AlertTypeNodeCPUHigh (nm_CPUUsagePercent m) (NodeCPUPercent thr)]
        else [])
     @ (if NodeMemoryPercent thr < nm_MemoryUsagePercent m
        then [BuildNodeMetricAlert fmt
                (ids (length sent + (if NodeCPUPercent thr < nm_CPUUsagePercent m then 1 else 0)))
                now (nm_NodeName m)
                AlertTypeNodeMemoryHigh (nm_MemoryUsagePercent m) (NodeMemoryPercent thr)]
        else [])"
  by (simp add: checkNodeMetrics_body_def Let_def)

lemma severity_rows:
  "Severity (BuildPodAlert uid now pod ''pod_failed'' v) = ''critical''"
  "Severity (BuildPodAlert uid now pod ''pod_unknown'' v) = ''critical''"
  "Severity (BuildPodAlert uid now pod ''pod_oom_killed'' v) = ''critical''"
  "Severity (BuildNodeAlert uid now node ''node_not_ready'' v) = ''critical''"
  "Severity (BuildPodAlert uid now pod ''pod_crash_loop'' v) = ''high''"
  "Severity (BuildPodAlert uid now pod ''pod_image_pull'' v) = ''high''"
  "Severity (BuildPodAlert uid now pod ''pod_restart_threshold'' v) = ''high''"
  "Severity (BuildNodeAlert uid now node ''node_memory_pressure'' v) = ''high''"
  "Severity (BuildNodeAlert uid now node ''node_disk_pressure'' v) = ''high''"
  "Severity (BuildPodMetricAlert fmt uid now ns name ''pod_cpu_high'' v th) = ''high''"
  "Severity (BuildPodMetricAlert fmt uid now ns name ''pod_memory_high'' v th) = ''high''"
  "Severity (BuildPodAlert uid now pod ''pod_pending'' v) = ''medium''"
  "Severity (BuildNodeAlert uid now node ''node_pid_pressure'' v) = ''medium''"
  "Severity (BuildNodeMetricAlert fmt uid now nname ''node_cpu_high'' v th) = ''critical''"
  "Severity (BuildNodeMetricAlert fmt uid now nname ''node_memory_high'' v th) = ''critical''"
  by (simp_all add: BuildPodAlert_Severity BuildNodeAlert_Severity BuildPodMetricAlert_Severity
      BuildNodeMetricAlert_Severity AlertType_defs Severity_defs)

lemma pod_alerts_severity:
  "\<forall>a \<in> set (evaluatePodConditions pw ids now pod).
      \<exists>ty. alert_type a = Some ty \<and> Severity a = spec_severity ty"
proof -
  have e: "\<forall>a \<in> set (evaluatePodConditions_early ids now pod).
      \<exists>ty. alert_type a = Some ty \<and> Severity a = spec_severity ty"
    using early_props [of ids now pod] by (fastforce simp: early_types_def)
  have r: "Severity (BuildPodAlert u now pod AlertTypePodRestartThreshold v)
             = spec_severity AlertTypePodRestartThreshold" for u v
    by (simp add: BuildPodAlert_Severity spec_severity_def AlertType_defs Severity_defs)
  have p: "Severity (BuildPodAlert u now pod AlertTypePodPending v)
             = spec_severity AlertTypePodPending" for u v
    by (simp add: BuildPodAlert_Severity spec_severity_def AlertType_defs Severity_defs)
  show ?thesis using e r p by (auto simp: evaluatePodConditions_eq)
qed

lemma node_alerts_severity:
  "\<forall>a \<in> set (evaluateNodeConditions ids now node).
      \<exists>ty. alert_type a = Some ty \<and> Severity a = spec_severity ty"
  using node_loop_props [of ids now node "node_Conditions node" "[]"]
  by (auto simp: evaluateNodeConditions_def)

lemma pod_metric_alerts_severity:
  "\<forall>a \<in> set (checkPodMetrics_body thr fmt ids now m []).
      \<exists>ty. alert_type a = Some ty \<and> Severity a = spec_severity ty"
proof -
  have r: "Severity (BuildPodMetricAlert fmt u now ns n AlertTypePodCPUHigh v th)
             = spec_severity AlertTypePodCPUHigh"
          "Severity (BuildPodMetricAlert fmt u now ns n AlertTypePodMemoryHigh v th)
             = spec_severity AlertTypePodMemoryHigh" for u ns n v th
    by (simp_all add: BuildPodMetricAlert_Severity spec_severity_def AlertType_defs Severity_defs)
  show ?thesis
    by (auto simp: checkPodMetrics_body_eq r)
qed

lemma node_metric_alerts_severity:
  "\<forall>a \<in> set (checkNodeMetrics_body thr fmt ids now m []).
      \<exists>ty. alert_type a = Some ty \<and> Severity a = spec_severity ty"
proof -
  have r: "Severity (BuildNodeMetricAlert fmt u now n AlertTypeNodeCPUHigh v th)
             = spec_severity AlertTypeNodeCPUHigh"
          "Severity (BuildNodeMetricAlert fmt u now n AlertTypeNodeMemoryHigh v th)
             = spec_severity AlertTypeNodeMemoryHigh" for u n v th
    by (simp_all add: BuildNodeMetricAlert_Severity spec_severity_def AlertType_defs Severity_defs)
  show ?thesis
    by (simp add: checkNodeMetrics_body_eq r)
qed

lemma node_alerts_aside:
  "map ids_and_times_aside (evaluateNodeConditions ids now node)
     = map ids_and_times_aside (evaluateNodeConditions ids' now' node)"
  unfolding evaluateNodeConditions_def by (rule node_loop_aside) simp

lemma pod_metric_alerts_aside:
  "map ids_and_times_aside (checkPodMetrics_body thr fmt ids now m [])
     = map ids_and_times_aside (checkPodMetrics_body thr fmt ids' now' m [])"
proof -
  have r: "ids_and_times_aside (BuildPodMetricAlert fmt (ids k) now ns n ty v th)
             = ids_and_times_aside (BuildPodMetricAlert fmt (ids' k) now' ns n ty v th)"
    for k ns n ty v th
    by (rule BuildPodMetricAlert_aside)
  show ?thesis
    by (simp add: checkPodMetrics_body_eq r [of 0] r [of "Suc 0"])
qed

lemma node_metric_alerts_aside:
  "map ids_and_times_aside (checkNodeMetrics_body thr fmt ids now m [])
     = map ids_and_times_aside (checkNodeMetrics_body thr fmt ids' now' m [])"
proof -
  have r: "ids_and_times_aside (BuildNodeMetricAlert fmt (ids k) now n ty v th)
             = ids_and_times_aside (BuildNodeMetricAlert fmt (ids' k) now' n ty v th)"
    for k n ty v th
    by (rule BuildNodeMetricAlert_aside)
  show ?thesis
    by (simp add: checkNodeMetrics_body_eq r [of 0] r [of "Suc 0"])
qed

text \<open>
  C3, as amended. The severity of a built alert is the fixed value of the table of
  section 4.3 for its alert type: each of the fifteen rows holds for the builder the
  evaluator uses for that type, and every alert that the pod evaluator, the node
  evaluator and the two metric checks emit carries an \<open>alert_type\<close> label and the
  severity that the table gives for it. Repeated evaluation of the same object with
  the same thresholds yields the same alerts, identifiers and timestamps aside
  (\<open>triggered_at\<close>, \<open>created_at\<close> and \<open>updated_at\<close> are the instant of the
  evaluation), whatever the two instants and the identifiers drawn; for a pod whose
  phase is Pending this holds when both instants are on the same side of the pending
  timeout.
\<close>

theorem C3_severity_and_determinism:
  "Severity (BuildPodAlert uid now pod ''pod_failed'' v) = ''critical''
   \<and> Severity (BuildPodAlert uid now pod ''pod_unknown'' v) = ''critical''
   \<and> Severity (BuildPodAlert uid now pod ''pod_oom_killed'' v) = ''critical''
   \<and> Severity (BuildNodeAlert uid now node ''node_not_ready'' v) = ''critical''
   \<and> Severity (BuildPodAlert uid now pod ''pod_crash_loop'' v) = ''high''
   \<and> Severity (BuildPodAlert uid now pod ''pod_image_pull'' v) = ''high''
   \<and> Severity (BuildPodAlert uid now pod ''pod_restart_threshold'' v) = ''high''
   \<and> Severity (BuildNodeAlert uid now node ''node_memory_pressure'' v) = ''high''
   \<and> Severity (BuildNodeAlert uid now node ''node_disk_pressure'' v) = ''high''
   \<and> Severity (BuildPodMetricAlert fmt uid now ns name ''pod_cpu_high'' v th) = ''high''
   \<and> Severity (BuildPodMetricAlert fmt uid now ns name ''pod_memory_high'' v th) = ''high''
   \<and> Severity (BuildPodAlert uid now pod ''pod_pending'' v) = ''medium''
   \<and> Severity (BuildNodeAlert uid now node ''node_pid_pressure'' v) = ''medium''
   \<and> Severity (BuildNodeMetricAlert fmt uid now nname ''node_cpu_high'' v th) = ''critical''
   \<and> Severity (BuildNodeMetricAlert fmt uid now nname ''node_memory_high'' v th) = ''critical''
   \<and> (\<forall>a \<in> set (evaluatePodConditions pw ids now pod).
         \<exists>ty. alert_type a = Some ty \<and> Severity a = spec_severity ty)
   \<and> (\<forall>a \<in> set (evaluateNodeConditions ids now node).
         \<exists>ty. alert_type a = Some ty \<and> Severity a = spec_severity ty)
   \<and> (\<forall>a \<in> set (checkPodMetrics_body thr fmt ids now pm []).
         \<exists>ty. alert_type a = Some ty \<and> Severity a = spec_severity ty)
   \<and> (\<forall>a \<in> set (checkNodeMetrics_body thr fmt ids now nm []).
         \<exists>ty. alert_type a = Some ty \<and> Severity a = spec_severity ty)
   \<and> map ids_and_times_aside (evaluateNodeConditions ids now node)
       = map ids_and_times_aside (evaluateNodeConditions ids' now' node)
   \<and> map ids_and_times_aside (checkPodMetrics_body thr fmt ids now pm [])
       = map ids_and_times_aside (checkPodMetrics_body thr fmt ids' now' pm [])
   \<and> map ids_and_times_aside (checkNodeMetrics_body thr fmt ids now nm [])
       = map ids_and_times_aside (checkNodeMetrics_body thr fmt ids' now' nm [])
   \<and> ((pod_Phase pod = PodPending \<longrightarrow>
          (pendingTimeout pw < time_Since now (pod_CreationTimestamp pod))
            = (pendingTimeout pw < time_Since now' (pod_CreationTimestamp pod))) \<longrightarrow>
        map ids_and_times_aside (evaluatePodConditions pw ids now pod)
          = map ids_and_times_aside (evaluatePodConditions pw ids' now' pod))"
proof -
  have pd: "(pod_Phase pod = PodPending \<longrightarrow>
          (pendingTimeout pw < time_Since now (pod_CreationTimestamp pod))
            = (pendingTimeout pw < time_Since now' (pod_CreationTimestamp pod))) \<longrightarrow>
        map ids_and_times_aside (evaluatePodConditions pw ids now pod)
          = map ids_and_times_aside (evaluatePodConditions pw ids' now' pod)"
    using evaluatePodConditions_aside [of pod pw now now' ids ids'] by blast
  show ?thesis
    by (intro conjI severity_rows pod_alerts_severity node_alerts_severity
        pod_metric_alerts_severity node_metric_alerts_severity node_alerts_aside
        pod_metric_alerts_aside node_metric_alerts_aside pd)
qed

theorem C3_severity_and_determinism_witness:
  "pod_Phase pending_pod = PodPending
   \<and> ((pendingTimeout (NewPodWatcher example_rules)
          < time_Since 301000000000 (pod_CreationTimestamp pending_pod))
        = (pendingTimeout (NewPodWatcher example_rules)
            < time_Since 302000000000 (pod_CreationTimestamp pending_pod)))
   \<and> map ids_and_times_aside
         (evaluatePodConditions (NewPodWatcher example_rules) example_ids
            301000000000 pending_pod)
       = map ids_and_times_aside
           (evaluatePodConditions (NewPodWatcher example_rules) (\<lambda>k. of_nat k + 7)
              302000000000 pending_pod)
   \<and> evaluatePodConditions (NewPodWatcher example_rules) example_ids 301000000000 pending_pod
       = [BuildPodAlert 0 301000000000 pending_pod AlertTypePodPending 1]
   \<and> Severity (BuildPodAlert 0 301000000000 pending_pod AlertTypePodPending 1) = ''medium''
   \<and> evaluateNodeConditions example_ids 1000 not_ready_node
       = [BuildNodeAlert 0 1000 not_ready_node AlertTypeNodeNotReady 1]
   \<and> Severity (BuildNodeAlert 0 1000 not_ready_node AlertTypeNodeNotReady 1) = ''critical''"
proof -
  let ?pw = "NewPodWatcher example_rules"
  let ?B = "BuildPodAlert 0 301000000000 pending_pod AlertTypePodPending 1"
  let ?C = "BuildNodeAlert 0 1000 not_ready_node AlertTypeNodeNotReady 1"
  have ph: "pod_Phase pending_pod = PodPending"
    by (simp add: pending_pod_def PodPending_def)
  have t: "time_Since 301000000000 (pod_CreationTimestamp pending_pod) = 301000000000"
          "time_Since 302000000000 (pod_CreationTimestamp pending_pod) = 302000000000"
    by (simp_all add: time_Since_def pending_pod_def)
  have q: "(pendingTimeout ?pw < time_Since 301000000000 (pod_CreationTimestamp pending_pod))
        = (pendingTimeout ?pw < time_Since 302000000000 (pod_CreationTimestamp pending_pod))"
    by (simp only: t pendingTimeout_New) simp
  have e: "evaluatePodConditions ?pw example_ids 301000000000 pending_pod = [?B]"
    by (simp add: evaluatePodConditions_eq ph t evaluatePodConditions_early_def
        totalRestarts_of_def NewPodWatcher_def example_rules_def example_ids_def
        Minute_def Second_def)
       (simp add: pending_pod_def PodFailed_def PodUnknown_def PodPending_def)
  have n: "evaluateNodeConditions example_ids 1000 not_ready_node = [?C]"
    by (simp add: evaluateNodeConditions_def evaluateNodeConditions_body_def NodeReady_def
        ConditionTrue_def not_ready_node_def example_ids_def)
  note c3 = C3_severity_and_determinism [of 0 301000000000 pending_pod 1 not_ready_node
      _ _ _ _ _ ?pw example_ids _ _ _ "\<lambda>k. of_nat k + 7" 302000000000]
  have d: "map ids_and_times_aside (evaluatePodConditions ?pw example_ids 301000000000 pending_pod)
       = map ids_and_times_aside
           (evaluatePodConditions ?pw (\<lambda>k. of_nat k + 7) 302000000000 pending_pod)"
    using c3 q by blast
  have s1: "Severity ?B = ''medium''" using c3 by (simp add: AlertType_defs)
  have s2: "Severity ?C = ''critical''"
    using C3_severity_and_determinism [of 0 1000 pending_pod 1 not_ready_node]
    by (simp add: AlertType_defs)
  show ?thesis using ph q d e n s1 s2 by blast
qed

text \<open>
  The claim as stated fails: the same Pending pod, with the same thresholds and the
  same identifiers, yields no alert when evaluated 299 seconds after its creation and
  one alert when evaluated 301 seconds after it; and the same node evaluated at two
  instants yields alerts that differ in \<open>triggered_at\<close>, not only in their identifiers.
\<close>

theorem C3_severity_and_determinism_counterexample:
  "evaluatePodConditions (NewPodWatcher example_rules) example_ids 299000000000 pending_pod = []
   \<and> evaluatePodConditions (NewPodWatcher example_rules) example_ids 301000000000 pending_pod
       = [BuildPodAlert 0 301000000000 pending_pod AlertTypePodPending 1]
   \<and> map TriggeredAt (evaluateNodeConditions example_ids 1000 not_ready_node) = [1000]
   \<and> map TriggeredAt (evaluateNodeConditions example_ids 2000 not_ready_node) = [2000]"
proof -
  let ?pw = "NewPodWatcher example_rules"
  have ph: "pod_Phase pending_pod = PodPending"
    by (simp add: pending_pod_def PodPending_def)
  have t: "time_Since 299000000000 (pod_CreationTimestamp pending_pod) = 299000000000"
          "time_Since 301000000000 (pod_CreationTimestamp pending_pod) = 301000000000"
    by (simp_all add: time_Since_def pending_pod_def)
  have a: "evaluatePodConditions ?pw example_ids 299000000000 pending_pod = []"
    by (simp add: evaluatePodConditions_eq ph t evaluatePodConditions_early_def
        totalRestarts_of_def NewPodWatcher_def example_rules_def example_ids_def
        Minute_def Second_def)
       (simp add: pending_pod_def PodFailed_def PodUnknown_def PodPending_def)
  have b: "evaluatePodConditions ?pw example_ids 301000000000 pending_pod
             = [BuildPodAlert 0 301000000000 pending_pod AlertTypePodPending 1]"
    by (simp add: evaluatePodConditions_eq ph t evaluatePodConditions_early_def
        totalRestarts_of_def NewPodWatcher_def example_rules_def example_ids_def
        Minute_def Second_def)
       (simp add: pending_pod_def PodFailed_def PodUnknown_def PodPending_def)
  have c: "map TriggeredAt (evaluateNodeConditions example_ids now not_ready_node) = [now]" for now
    by (simp add: evaluateNodeConditions_def evaluateNodeConditions_body_def NodeReady_def
        ConditionTrue_def BuildNodeAlert_def NewAlert_def Let_def AlertType_defs
        not_ready_node_def)
  show ?thesis using a b c [of 1000] c [of 2000] by simp
qed

text \<open>
  C9. For every alert event, when the configured SMTP host or the configured user name
  is the empty string, \<open>OnAlert\<close> returns nil: it logs that the configuration is
  incomplete and hands nothing to \<open>smtp.SendMail\<close> (no attempt, no sleep).
\<close>

theorem C9_email_incomplete_config:
  assumes "SMTPHost config = '''' \<or> Username config = ''''"
  shows "OnAlert config fmt smtp event out =
           (None, out\<lparr>email_log := email_log out
                       @ [''Email configuration incomplete, skipping email dispatch'']\<rparr>)
       \<and> attempts (snd (OnAlert config fmt smtp event out)) = attempts out
       \<and> slept (snd (OnAlert config fmt smtp event out)) = slept out"
  using assms by (simp add: OnAlert_def)

theorem C9_email_incomplete_config_witness:
  "SMTPHost incomplete_email_config = []
   \<and> OnAlert incomplete_email_config example_fmt (\<lambda>k. Some (Errorf ''connection refused''))
        \<lparr>ev_Alert = example_alert 1 5 ''m'', ev_Timestamp = 6\<rparr> empty_outbox
     = (None, \<lparr>attempts = [], slept = 0,
               email_log = [''Email configuration incomplete, skipping email dispatch'']\<rparr>)"
proof -
  have h: "SMTPHost incomplete_email_config = '''' \<or> Username incomplete_email_config = ''''"
    by (simp add: incomplete_email_config_def)
  show ?thesis
    using C9_email_incomplete_config [OF h] by (simp add: incomplete_email_config_def empty_outbox_def)
qed

end
